theory Spec2Isabelle
  imports Complex_Main "HOL-Library.AList"
begin

section \<open>Errors and tensors\<close>

text \<open>
  The script \<^verbatim>\<open>glide-finetune.py\<close> is orchestration code over PyTorch. Every exception
  the modelled code can raise is a value of \<open>error\<close>; a computation that can raise returns
  \<open>error + 'a\<close> with \<open>Inl\<close> for the exception.
\<close>

datatype error =
    RuntimeError string
  | ValueError string
  | IndexError string
  | AssertionError string
  | UnboundLocalError string
  | AttributeError string
  | ZeroDivisionError string

text \<open>
  A tensor is its shape together with its entries, addressed by index lists. Entries are
  idealised as real numbers: rounding and NaN of the floating-point types are not part of
  the model. Only the entries at indices inside the shape are meaningful.
\<close>

record tensor =
  shape :: "nat list"
  elt :: "nat list \<Rightarrow> real"

text \<open>All index lists of a shape, in row-major order.\<close>

fun indices :: "nat list \<Rightarrow> nat list list" where
  "indices [] = [[]]"
| "indices (n # ns) = concat (map (\<lambda>i. map ((#) i) (indices ns)) [0..<n])"

definition numel :: "nat list \<Rightarrow> nat" where
  "numel s = prod_list s"

subsection \<open>The PyTorch operations used by \<open>train_step\<close>\<close>

text \<open>
  \<^verbatim>\<open>th.randint(low, high, (n,))\<close> returns \<open>n\<close> integers of the half-open interval
  \<open>[low, high)\<close> and raises when the interval is empty. The generator is the parameter
  \<open>rnd\<close>, a stream of raw draws; draw \<open>i\<close> is reduced into the interval.
\<close>

definition randint :: "int \<Rightarrow> int \<Rightarrow> nat \<Rightarrow> (nat \<Rightarrow> nat) \<Rightarrow> error + int list" where
  "randint low high n rnd =
     (if high \<le> low then Inl (RuntimeError ''random_ expects from to be less than to'')
      else Inr (map (\<lambda>i. low + int (rnd i mod nat (high - low))) [0..<n]))"

text \<open>
  \<^verbatim>\<open>th.randn_like(x)\<close>: a tensor of the shape of \<open>x\<close> whose entries are the draws
  \<open>gauss\<close> of the normal generator.
\<close>

definition randn_like :: "tensor \<Rightarrow> (nat list \<Rightarrow> real) \<Rightarrow> tensor" where
  "randn_like t gauss = \<lparr>shape = shape t, elt = gauss\<rparr>"

text \<open>\<^verbatim>\<open>t.narrow(d, start, len)\<close>: the slice \<open>start .. start + len\<close> along dimension \<open>d\<close>.\<close>

definition narrow :: "tensor \<Rightarrow> nat \<Rightarrow> nat \<Rightarrow> nat \<Rightarrow> tensor" where
  "narrow t d start len =
     \<lparr>shape = (shape t)[d := len], elt = (\<lambda>idx. elt t (idx[d := idx ! d + start]))\<rparr>"

text \<open>
  \<^verbatim>\<open>th.split(t, split_size, dim=d)\<close> cuts dimension \<open>d\<close> into chunks of \<open>split_size\<close>
  entries, the last chunk holding what is left; there is always at least one chunk.
\<close>

definition get_num_splits :: "nat \<Rightarrow> nat \<Rightarrow> nat" where
  "get_num_splits dim_size split_size =
     (if split_size = 0 then 1 else max ((dim_size + split_size - 1) div split_size) 1)"

definition th_split :: "tensor \<Rightarrow> nat \<Rightarrow> nat \<Rightarrow> error + tensor list" where
  "th_split t split_size d =
     (if length (shape t) \<le> d then Inl (IndexError ''Dimension out of range'')
      else
        let dim_size = shape t ! d in
        if split_size = 0 \<and> dim_size \<noteq> 0
        then Inl (RuntimeError ''split_size can only be 0 if dimension size is 0'')
        else
          let num_splits = get_num_splits dim_size split_size;
              last_split_size = split_size - (split_size * num_splits - dim_size)
          in Inr (map (\<lambda>i. narrow t d (i * split_size)
                          (if i < num_splits - 1 then split_size else last_split_size))
                    [0..<num_splits]))"

text \<open>
  Broadcasting of two shapes, aligned at the trailing dimension (the shapes are given
  reversed): sizes must agree or one of them must be 1.
\<close>

fun broadcast_rev :: "nat list \<Rightarrow> nat list \<Rightarrow> nat list option" where
  "broadcast_rev [] ys = Some ys"
| "broadcast_rev (x # xs) [] = Some (x # xs)"
| "broadcast_rev (x # xs) (y # ys) =
     (if x = y \<or> y = 1 then map_option ((#) x) (broadcast_rev xs ys)
      else if x = 1 then map_option ((#) y) (broadcast_rev xs ys)
      else None)"

definition broadcast_shapes :: "nat list \<Rightarrow> nat list \<Rightarrow> nat list option" where
  "broadcast_shapes s1 s2 = map_option rev (broadcast_rev (rev s1) (rev s2))"

text \<open>The index of an operand of shape \<open>s\<close> that a broadcast result index reads.\<close>

definition expand_index :: "nat list \<Rightarrow> nat list \<Rightarrow> nat list" where
  "expand_index s idx =
     map2 (\<lambda>d i. if d = 1 then 0 else i) s (drop (length idx - length s) idx)"

text \<open>\<^verbatim>\<open>a - b\<close> on tensors.\<close>

definition tsub :: "tensor \<Rightarrow> tensor \<Rightarrow> error + tensor" where
  "tsub a b =
     (case broadcast_shapes (shape a) (shape b) of
        None \<Rightarrow> Inl (RuntimeError ''The size of tensor a must match the size of tensor b'')
      | Some s \<Rightarrow>
          Inr \<lparr>shape = s,
               elt = (\<lambda>idx. elt a (expand_index (shape a) idx) - elt b (expand_index (shape b) idx))\<rparr>)"

text \<open>\<^verbatim>\<open>t ** n\<close>, entry by entry.\<close>

definition tpow :: "tensor \<Rightarrow> nat \<Rightarrow> tensor" where
  "tpow t n = \<lparr>shape = shape t, elt = (\<lambda>idx. elt t idx ^ n)\<rparr>"

text \<open>
  Modelled from the spec: \<^verbatim>\<open>util.mean_flat\<close>, a helper of this repository that is not
  among the source files. Section 4.1 step 6 of the specification describes it as the
  "mean over all non-batch dimensions": one mean per example, over every dimension but
  the first.
\<close>

definition mean_flat :: "tensor \<Rightarrow> tensor" where
  "mean_flat t =
     (case shape t of
        [] \<Rightarrow> t
      | b # rest \<Rightarrow>
          \<lparr>shape = [b],
           elt = (\<lambda>idx. (\<Sum>j\<leftarrow>indices rest. elt t (hd idx # j)) / real (numel rest))\<rparr>)"

text \<open>\<^verbatim>\<open>t.mean()\<close>: the mean of all entries, a scalar.\<close>

definition mean :: "tensor \<Rightarrow> real" where
  "mean t = (\<Sum>idx\<leftarrow>indices (shape t). elt t idx) / real (numel (shape t))"

section \<open>The training step\<close>

text \<open>
  The diffusion object and the model come from the \<^verbatim>\<open>glide_text2im\<close> package. Of the
  diffusion the step reads the schedule \<^verbatim>\<open>betas\<close> and calls \<^verbatim>\<open>q_sample\<close>; the model is
  its forward function. Both are parameters here.
\<close>

record spaced_diffusion =
  betas :: "real list"
  q_sample :: "tensor \<Rightarrow> int list \<Rightarrow> tensor \<Rightarrow> tensor"

type_synonym 'k text2im_unet = "tensor \<Rightarrow> int list \<Rightarrow> 'k \<Rightarrow> 'k \<Rightarrow> tensor"

text \<open>
  Lines 28 to 30:
  \<^verbatim>\<open>timesteps = th.randint(0, len(glide_diffusion.betas) - 1, (x_start.shape[0],), device=device)\<close>
\<close>

definition draw_timesteps :: "spaced_diffusion \<Rightarrow> tensor \<Rightarrow> (nat \<Rightarrow> nat) \<Rightarrow> error + int list" where
  "draw_timesteps glide_diffusion x_start rnd =
     (case shape x_start of
        [] \<Rightarrow> Inl (IndexError ''tuple index out of range'')
      | b # _ \<Rightarrow> randint 0 (int (length (betas glide_diffusion)) - 1) b rnd)"

text \<open>The unpacking \<^verbatim>\<open>a, b = xs\<close> of a sequence into two names.\<close>

fun unpack_pair :: "'a list \<Rightarrow> error + 'a \<times> 'a" where
  "unpack_pair [] = Inl (ValueError ''not enough values to unpack (expected 2, got 0)'')"
| "unpack_pair [a] = Inl (ValueError ''not enough values to unpack (expected 2, got 1)'')"
| "unpack_pair [a, b] = Inr (a, b)"
| "unpack_pair (a # b # c # rest) = Inl (ValueError ''too many values to unpack (expected 2)'')"

text \<open>Line 44: \<^verbatim>\<open>epsilon, _ = th.split(model_output, C, dim=1)\<close>\<close>

definition split_epsilon :: "tensor \<Rightarrow> nat \<Rightarrow> error + tensor \<times> tensor" where
  "split_epsilon model_output C =
     (case th_split model_output C 1 of
        Inl e \<Rightarrow> Inl e
      | Inr chunks \<Rightarrow> unpack_pair chunks)"

text \<open>
  Lines 45 to 47:
  \<^verbatim>\<open>return util.mean_flat((noise.detach().to(device) - epsilon) ** 2).mean()\<close>
\<close>

definition compute_loss :: "tensor \<Rightarrow> tensor \<Rightarrow> error + real" where
  "compute_loss noise epsilon =
     (case tsub noise epsilon of
        Inl e \<Rightarrow> Inl e
      | Inr d \<Rightarrow> Inr (mean (mean_flat (tpow d 2))))"

text \<open>
  \<^verbatim>\<open>train_step\<close>, lines 19 to 47. The moves to the device do not change a tensor. The
  two generators consulted by the step are the parameters \<open>rnd\<close> and \<open>gauss\<close>.
\<close>

definition train_step ::
  "'k text2im_unet \<Rightarrow> spaced_diffusion \<Rightarrow> 'k \<times> 'k \<times> tensor \<Rightarrow>
     (nat \<Rightarrow> nat) \<Rightarrow> (nat list \<Rightarrow> real) \<Rightarrow> error + real" where
  "train_step glide_model glide_diffusion batch rnd gauss =
     (case batch of (tokens, masks, x_start) \<Rightarrow>
        (case draw_timesteps glide_diffusion x_start rnd of
           Inl e \<Rightarrow> Inl e
         | Inr timesteps \<Rightarrow>
             let noise = randn_like x_start gauss;
                 x_t = q_sample glide_diffusion x_start timesteps noise
             in (case shape x_t of
                   [] \<Rightarrow> Inl (ValueError ''not enough values to unpack (expected 2, got 0)'')
                 | [B] \<Rightarrow> Inl (ValueError ''not enough values to unpack (expected 2, got 1)'')
                 | B # C # _ \<Rightarrow>
                     let model_output = glide_model x_t timesteps tokens masks in
                     (case split_epsilon model_output C of
                        Inl e \<Rightarrow> Inl e
                      | Inr (epsilon, _) \<Rightarrow> compute_loss noise epsilon))))"

text \<open>
  The loss as the specification words it (section 4.1 step 6): the mean over the batch of
  the per-example mean, over all non-batch dimensions, of the squared error between the
  injected noise and the predicted noise.
\<close>

definition squared_error_mean ::
  "nat \<Rightarrow> nat \<Rightarrow> nat \<Rightarrow> nat \<Rightarrow> (nat list \<Rightarrow> real) \<Rightarrow> (nat list \<Rightarrow> real) \<Rightarrow> real" where
  "squared_error_mean B C H W noise pred =
     (\<Sum>b\<leftarrow>[0..<B].
        (\<Sum>c\<leftarrow>[0..<C]. \<Sum>h\<leftarrow>[0..<H]. \<Sum>w\<leftarrow>[0..<W].
           (noise [b, c, h, w] - pred [b, c, h, w])\<^sup>2) / real (C * H * W)) / real B"

section \<open>Effects\<close>

text \<open>
  What the script does to the world is recorded as a list of events, in the order of the
  calls. A computation yields the events it made and either its result or the
  exception that stopped it: the events made before an exception stay in the list.

  A call into a library, or into a module of the repository that is not among the source
  files (\<^verbatim>\<open>util.sample\<close>, \<^verbatim>\<open>util.pred_to_pil\<close>, \<^verbatim>\<open>util.wandb_setup\<close>,
  \<^verbatim>\<open>util.load_base_model\<close>, \<^verbatim>\<open>fp16_util.MixedPrecisionTrainer\<close>), is one event that
  carries the arguments of interest; what happens inside the call is not modelled.
  \<^item> \<open>MakeDirs p\<close>: \<^verbatim>\<open>os.makedirs(p, exist_ok=True)\<close>;
  \<^item> \<open>WandbSetup name\<close>, \<open>LoadBaseModel ckpt\<close>: \<^verbatim>\<open>util.wandb_setup\<close> for the project,
    \<^verbatim>\<open>util.load_base_model\<close> for the checkpoint to resume from;
  \<^item> \<open>NewOptimizer opt\<close>: the optimizer has been constructed;
  \<^item> \<open>ModelTo d\<close>, \<open>ModelTrain\<close>, \<open>ModelZeroGrad\<close>: \<^verbatim>\<open>glide_model.to(d)\<close>,
    \<^verbatim>\<open>.train()\<close>, \<^verbatim>\<open>.zero_grad()\<close>;
  \<^item> \<open>NewTrainer fp16\<close>, \<open>ZeroGrad\<close>, \<open>Backward loss\<close>, \<open>Optimize opt\<close>: the trainer is
    constructed, \<^verbatim>\<open>trainer.zero_grad()\<close>, \<^verbatim>\<open>trainer.backward(loss)\<close>,
    \<^verbatim>\<open>trainer.optimize(opt=opt)\<close>;
  \<^item> \<open>Iter i\<close>: the loop of line 72 binds \<^verbatim>\<open>train_idx\<close> to \<open>i\<close> and starts its body;
  \<^item> \<open>TqdmWrite loss\<close>, \<open>Print s\<close>: the loss line of \<^verbatim>\<open>tqdm.write\<close>, a \<^verbatim>\<open>print\<close>;
  \<^item> \<open>Sample prompt bs gs x y\<close>, \<open>SaveImage p\<close>: \<^verbatim>\<open>util.sample\<close> with its prompt, batch
    size, guidance scale and side lengths, and the image saved to \<open>p\<close>;
  \<^item> \<open>TorchSave p\<close>: \<^verbatim>\<open>th.save(glide_model.state_dict(), p)\<close>;
  \<^item> \<open>WandbLog r\<close>: \<^verbatim>\<open>wandb_run.log(r)\<close>.
  A log record is a Python dictionary: keys in insertion order, a key set again keeps its
  place. \<open>LImage p c\<close> is \<^verbatim>\<open>wandb.Image(p, caption=c)\<close>.
\<close>

datatype log_value = LInt int | LFloat real | LImage string string

type_synonym log_record = "(string \<times> log_value) list"

record param =
  name :: string
  requires_grad :: bool

datatype optimizer =
    SGD "param list" real real
  | AdamW "param list" real real

datatype event =
    MakeDirs string
  | WandbSetup string
  | LoadBaseModel string
  | NewOptimizer optimizer
  | ModelTo string
  | ModelTrain
  | ModelZeroGrad
  | NewTrainer bool
  | ZeroGrad
  | Iter nat
  | Backward real
  | Optimize optimizer
  | TqdmWrite real
  | Print string
  | Sample string int real int int
  | SaveImage string
  | TorchSave string
  | WandbLog log_record

type_synonym 'a io = "event list \<times> (error + 'a)"

definition emit :: "event list \<Rightarrow> unit io" where
  "emit evs = (evs, Inr ())"

definition raise :: "error \<Rightarrow> 'a io" where
  "raise e = ([], Inl e)"

definition return :: "'a \<Rightarrow> 'a io" where
  "return x = ([], Inr x)"

definition lift :: "error + 'a \<Rightarrow> 'a io" where
  "lift r = ([], r)"

text \<open>Sequencing: the second computation runs only if the first raised nothing.\<close>

definition bind_io :: "'a io \<Rightarrow> ('a \<Rightarrow> 'b io) \<Rightarrow> 'b io" where
  "bind_io m f =
     (case m of
        (evs, Inl e) \<Rightarrow> (evs, Inl e)
      | (evs, Inr x) \<Rightarrow> (case f x of (evs', r) \<Rightarrow> (evs @ evs', r)))"

text \<open>A \<^verbatim>\<open>for\<close> loop: the body once per item, in order, stopping at the first exception.\<close>

fun for_each :: "('a \<Rightarrow> unit io) \<Rightarrow> 'a list \<Rightarrow> unit io" where
  "for_each body [] = ([], Inr ())"
| "for_each body (x # xs) =
     (case body x of
        (evs, Inl e) \<Rightarrow> (evs, Inl e)
      | (evs, Inr _) \<Rightarrow> (case for_each body xs of (evs', r) \<Rightarrow> (evs @ evs', r)))"

subsection \<open>Strings and paths\<close>

text \<open>\<^verbatim>\<open>str(n)\<close> of a non-negative integer, as the f-strings of the script render it.\<close>

definition digit_char :: "nat \<Rightarrow> char" where
  "digit_char d = ''0123456789'' ! d"

function str_nat :: "nat \<Rightarrow> string" where
  "str_nat n = (if n < 10 then [digit_char n] else str_nat (n div 10) @ [digit_char (n mod 10)])"
  by pat_completeness auto
termination
  by (relation "measure id") auto

declare str_nat.simps [simp del]

text \<open>\<^verbatim>\<open>os.path.join(a, b)\<close> on a POSIX system.\<close>

definition os_path_join :: "string \<Rightarrow> string \<Rightarrow> string" where
  "os_path_join a b =
     (if b \<noteq> [] \<and> hd b = CHR ''/'' then b
      else if a = [] \<or> last a = CHR ''/'' then a @ b
      else a @ ''/'' @ b)"

section \<open>The epoch loop\<close>

text \<open>
  Arguments that the driver \<^verbatim>\<open>run_glide_finetune\<close> and the epoch function
  \<^verbatim>\<open>run_glide_finetune_epoch\<close> have under the same name.
\<close>

record loop_config =
  side_x :: int
  side_y :: int
  checkpoints_dir :: string
  device :: string
  log_frequency :: int
  sample_bs :: int
  sample_gs :: real

text \<open>
  The other arguments of \<^verbatim>\<open>run_glide_finetune_epoch\<close>. Of \<^verbatim>\<open>glide_options\<close> the function
  reads the entry \<^verbatim>\<open>"use_fp16"\<close>; \<^verbatim>\<open>wandb_run\<close> defaults to \<^verbatim>\<open>None\<close>.
\<close>

record epoch_args = loop_config +
  optimizer :: optimizer
  options_use_fp16 :: bool
  prompt :: string
  outputs_dir :: string
  wandb_run :: "string option"

text \<open>\<^verbatim>\<open>save_model\<close>, lines 120 to 125.\<close>

definition checkpoint_path :: "string \<Rightarrow> nat \<Rightarrow> string" where
  "checkpoint_path dir train_idx = os_path_join dir (''glide-ft-'' @ str_nat train_idx @ ''.pt'')"

definition save_model :: "string \<Rightarrow> nat \<Rightarrow> event list" where
  "save_model dir train_idx =
     [TorchSave (checkpoint_path dir train_idx),
      Print (''Saved checkpoint '' @ str_nat train_idx @ '' to '' @ dir @ ''/glide-ft-''
               @ str_nat train_idx @ ''.pt'')]"

text \<open>
  Lines 83 to 86. In Python \<^verbatim>\<open>if train_idx % 10:\<close> takes the branch when the remainder is
  not zero.
\<close>

definition log_loss :: "nat \<Rightarrow> real \<Rightarrow> log_record io" where
  "log_loss train_idx current_loss =
     (let log_rec = [] in
      if train_idx mod 10 \<noteq> 0
      then ([TqdmWrite current_loss],
            Inr (AList.update ''loss'' (LFloat current_loss)
                   (AList.update ''iter'' (LInt (int train_idx)) log_rec)))
      else return log_rec)"

text \<open>
  Lines 89 to 109. The test \<^verbatim>\<open>train_idx > 0 and train_idx % log_frequency == 0\<close> evaluates
  the remainder only when \<^verbatim>\<open>train_idx > 0\<close>, and the remainder by zero raises.
\<close>

definition sample_from_model :: "epoch_args \<Rightarrow> nat \<Rightarrow> log_record \<Rightarrow> log_record io" where
  "sample_from_model a train_idx log_rec =
     (if 0 < train_idx
      then (if log_frequency a = 0
            then raise (ZeroDivisionError ''integer division or modulo by zero'')
            else if int train_idx mod log_frequency a = 0
            then (let sample_save_path = os_path_join (outputs_dir a) (str_nat train_idx @ ''.png'')
                  in ([Print (''Sampling from model at iteration '' @ str_nat train_idx),
                       Sample (prompt a) (sample_bs a) (sample_gs a) (side_x a) (side_y a),
                       SaveImage sample_save_path,
                       Print (''Saved sample '' @ sample_save_path)],
                      Inr (AList.update ''samples'' (LImage sample_save_path (prompt a))
                             (AList.update ''iter'' (LInt (int train_idx)) log_rec))))
            else return log_rec)
      else return log_rec)"

text \<open>Lines 110 to 114.\<close>

definition checkpoint_if_due :: "epoch_args \<Rightarrow> nat \<Rightarrow> event list" where
  "checkpoint_if_due a train_idx =
     (if train_idx mod 1000 = 0 \<and> 0 < train_idx
      then save_model (checkpoints_dir a) train_idx
           @ [Print (''Saved checkpoint '' @ str_nat train_idx @ '' to '' @ checkpoints_dir a
                       @ ''/glide-ft-'' @ str_nat train_idx @ ''.pt'')]
      else [])"

text \<open>Line 115: \<^verbatim>\<open>wandb_run.log(log)\<close>.\<close>

definition wandb_log :: "string option \<Rightarrow> log_record \<Rightarrow> unit io" where
  "wandb_log run log_rec =
     (case run of
        None \<Rightarrow> raise (AttributeError ''NoneType object has no attribute log'')
      | Some _ \<Rightarrow> emit [WandbLog log_rec])"

text \<open>
  The call \<^verbatim>\<open>train_step(glide_model, glide_diffusion, batch, device)\<close> of line 73 reads
  the weights of the model and the state of the random generators as the iterations
  before it left them. Its outcome at iteration \<open>train_idx\<close> is therefore a function of
  the index and the batch: with the forward function and the draws in effect at each
  iteration it is \<^verbatim>\<open>train_step\<close> on them.
\<close>

definition train_step_outcome ::
  "(nat \<Rightarrow> 'k text2im_unet) \<Rightarrow> spaced_diffusion \<Rightarrow> (nat \<Rightarrow> nat \<Rightarrow> nat) \<Rightarrow>
     (nat \<Rightarrow> nat list \<Rightarrow> real) \<Rightarrow> nat \<Rightarrow> 'k \<times> 'k \<times> tensor \<Rightarrow> error + real" where
  "train_step_outcome model_at glide_diffusion rnd_at gauss_at train_idx batch =
     train_step (model_at train_idx) glide_diffusion batch (rnd_at train_idx) (gauss_at train_idx)"

text \<open>
  The body of the loop, lines 73 to 115, for the pair \<open>(train_idx, batch)\<close>;
  \<open>step train_idx batch\<close> is the outcome of the training step at this iteration.
\<close>

definition loop_body ::
  "epoch_args \<Rightarrow> (nat \<Rightarrow> 'b \<Rightarrow> error + real) \<Rightarrow> nat \<times> 'b \<Rightarrow> unit io" where
  "loop_body a step item =
     (case item of (train_idx, batch) \<Rightarrow>
        bind_io (emit [Iter train_idx]) (\<lambda>_.
        bind_io (lift (step train_idx batch)) (\<lambda>current_loss.
        bind_io (emit [Backward current_loss, Optimize (optimizer a), ZeroGrad]) (\<lambda>_.
        bind_io (log_loss train_idx current_loss) (\<lambda>log_rec.
        bind_io (sample_from_model a train_idx log_rec) (\<lambda>log_rec.
        bind_io (emit (checkpoint_if_due a train_idx)) (\<lambda>_.
        wandb_log (wandb_run a) log_rec)))))))"

text \<open>
  \<^verbatim>\<open>run_glide_finetune_epoch\<close>, lines 50 to 117. After the loop \<^verbatim>\<open>train_idx\<close> still holds
  the index of the last batch; when the loader gave no batch the name was never bound,
  and line 117 raises.
\<close>

definition run_glide_finetune_epoch ::
  "epoch_args \<Rightarrow> (nat \<Rightarrow> 'b \<Rightarrow> error + real) \<Rightarrow> 'b list \<Rightarrow> unit io" where
  "run_glide_finetune_epoch a step dataloader =
     bind_io (emit [MakeDirs (checkpoints_dir a), NewTrainer (options_use_fp16 a), ZeroGrad]) (\<lambda>_.
     bind_io (for_each (loop_body a step) (enumerate 0 dataloader)) (\<lambda>_.
     bind_io (emit [Print ''Finished training, saving final checkpoint'']) (\<lambda>_.
       if dataloader = []
       then raise (UnboundLocalError ''local variable train_idx referenced before assignment'')
       else emit (save_model (checkpoints_dir a) (length dataloader - 1)))))"

subsection \<open>Reading a trace\<close>

text \<open>
  Projections of a trace: the optimizers of its optimizer steps, its gradient-related
  calls (zeroing, backward pass, optimizer step), the records logged to the tracker, the
  checkpoint files written, and the values the loop variable \<^verbatim>\<open>train_idx\<close> took, each in
  the order of the trace.
\<close>

fun optimizer_steps :: "event list \<Rightarrow> optimizer list" where
  "optimizer_steps [] = []"
| "optimizer_steps (Optimize opt # evs) = opt # optimizer_steps evs"
| "optimizer_steps (_ # evs) = optimizer_steps evs"

fun is_gradient_event :: "event \<Rightarrow> bool" where
  "is_gradient_event ZeroGrad = True"
| "is_gradient_event (Backward l) = True"
| "is_gradient_event (Optimize opt) = True"
| "is_gradient_event ModelZeroGrad = True"
| "is_gradient_event _ = False"

definition gradient_events :: "event list \<Rightarrow> event list" where
  "gradient_events evs = filter is_gradient_event evs"

text \<open>
  Modelled from the spec: \<^verbatim>\<open>fp16_util.MixedPrecisionTrainer\<close>, a module of this repository
  that is not among the source files. Section 2 of the specification: it "performs scaled
  backward passes and optimizer steps, manages zeroing gradients". A backward pass adds
  the gradient of its loss to what the gradient buffers hold, zeroing empties them, and
  an optimizer step applies what they hold. \<open>pending\<close> lists the losses whose gradients
  are in the buffers, \<open>applied\<close> lists, per optimizer step, the losses it applied.
\<close>

record grad_state =
  pending :: "real list"
  applied :: "real list list"

fun trainer_event :: "grad_state \<Rightarrow> event \<Rightarrow> grad_state" where
  "trainer_event g ZeroGrad = g\<lparr>pending := []\<rparr>"
| "trainer_event g ModelZeroGrad = g\<lparr>pending := []\<rparr>"
| "trainer_event g (Backward l) = g\<lparr>pending := pending g @ [l]\<rparr>"
| "trainer_event g (Optimize opt) = g\<lparr>applied := applied g @ [pending g]\<rparr>"
| "trainer_event g _ = g"

definition trainer_run :: "grad_state \<Rightarrow> event list \<Rightarrow> grad_state" where
  "trainer_run g evs = foldl trainer_event g evs"

fun wandb_logs :: "event list \<Rightarrow> log_record list" where
  "wandb_logs [] = []"
| "wandb_logs (WandbLog r # evs) = r # wandb_logs evs"
| "wandb_logs (_ # evs) = wandb_logs evs"

fun checkpoint_writes :: "event list \<Rightarrow> string list" where
  "checkpoint_writes [] = []"
| "checkpoint_writes (TorchSave p # evs) = p # checkpoint_writes evs"
| "checkpoint_writes (_ # evs) = checkpoint_writes evs"

text \<open>The events of training proper: iterations, sampler calls and files written.\<close>

fun is_training_event :: "event \<Rightarrow> bool" where
  "is_training_event (Iter i) = True"
| "is_training_event (Backward l) = True"
| "is_training_event (Optimize opt) = True"
| "is_training_event (Sample p bs gs x y) = True"
| "is_training_event (SaveImage p) = True"
| "is_training_event (TorchSave p) = True"
| "is_training_event _ = False"

fun iterations :: "event list \<Rightarrow> nat list" where
  "iterations [] = []"
| "iterations (Iter i # evs) = i # iterations evs"
| "iterations (_ # evs) = iterations evs"

text \<open>
  The part of the loop body after the optimizer step, lines 83 to 115, given the loss of
  the iteration.
\<close>

definition after_step :: "epoch_args \<Rightarrow> nat \<Rightarrow> real \<Rightarrow> unit io" where
  "after_step a i l =
     bind_io (log_loss i l) (\<lambda>log_rec.
     bind_io (sample_from_model a i log_rec) (\<lambda>log_rec.
     bind_io (emit (checkpoint_if_due a i)) (\<lambda>_.
     wandb_log (wandb_run a) log_rec)))"

section \<open>The driver\<close>

text \<open>The keyword arguments of \<^verbatim>\<open>run_glide_finetune\<close>, lines 128 to 152.\<close>

record run_args = loop_config +
  data_dir :: string
  batch_size :: int
  learning_rate :: real
  dropout :: real
  resize_ratio :: real
  uncond_p :: real
  resume_ckpt :: string
  use_fp16 :: bool
  freeze_transformer :: bool
  freeze_diffusion :: bool
  project_name :: string
  activation_checkpointing :: bool
  use_captions :: bool
  num_epochs :: int
  test_prompt :: string
  use_sgd :: bool

text \<open>
  What the driver gets from outside the script: the home-directory expansion of the
  operating system, the parameters of the loaded model, the items the dataset finds in a
  folder, the draws of the loader's shuffling, and the outcome of each training step
  (by epoch, index and batch).
\<close>

record 'ex finetune_env =
  expanduser :: "string \<Rightarrow> string"
  parameters :: "param list"
  text_image_dataset :: "string \<Rightarrow> 'ex list"
  shuffle_rnd :: "nat \<Rightarrow> nat \<Rightarrow> nat"
  train_step_at :: "nat \<Rightarrow> nat \<Rightarrow> 'ex list \<Rightarrow> error + real"

text \<open>
  \<^verbatim>\<open>th.optim.SGD\<close> and \<^verbatim>\<open>th.optim.AdamW\<close> refuse a negative learning rate and an empty
  parameter list.
\<close>

definition th_optim_SGD :: "param list \<Rightarrow> real \<Rightarrow> real \<Rightarrow> error + optimizer" where
  "th_optim_SGD params lr momentum =
     (if lr < 0 then Inl (ValueError ''Invalid learning rate'')
      else if params = [] then Inl (ValueError ''optimizer got an empty parameter list'')
      else Inr (SGD params lr momentum))"

definition th_optim_AdamW :: "param list \<Rightarrow> real \<Rightarrow> real \<Rightarrow> error + optimizer" where
  "th_optim_AdamW params lr weight_decay =
     (if lr < 0 then Inl (ValueError ''Invalid learning rate'')
      else if params = [] then Inl (ValueError ''optimizer got an empty parameter list'')
      else Inr (AdamW params lr weight_decay))"

text \<open>Lines 210 to 221.\<close>

definition make_optimizer :: "bool \<Rightarrow> real \<Rightarrow> param list \<Rightarrow> error + optimizer" where
  "make_optimizer sgd lr params =
     (if sgd
      then th_optim_SGD (filter requires_grad params) lr (9 / 10)
      else th_optim_AdamW (filter requires_grad params) lr 0)"

text \<open>
  \<^verbatim>\<open>th.utils.data.DataLoader(dataset, batch_size, shuffle=True)\<close>: the constructor refuses
  a batch size that is not positive; each pass over the loader permutes the items anew
  and hands them out in batches of \<open>batch_size\<close>, the last one holding what is left.
\<close>

primrec permute :: "nat \<Rightarrow> (nat \<Rightarrow> nat) \<Rightarrow> 'a list \<Rightarrow> 'a list" where
  "permute 0 rnd xs = []"
| "permute (Suc k) rnd xs =
     (if xs = [] then []
      else let i = rnd k mod length xs
           in xs ! i # permute k rnd (take i xs @ drop (Suc i) xs))"

definition shuffle :: "(nat \<Rightarrow> nat) \<Rightarrow> 'a list \<Rightarrow> 'a list" where
  "shuffle rnd xs = permute (length xs) rnd xs"

definition chunks :: "nat \<Rightarrow> 'a list \<Rightarrow> 'a list list" where
  "chunks n xs = map (\<lambda>i. take n (drop (i * n) xs)) [0..<(length xs + n - 1) div n]"

definition new_data_loader :: "int \<Rightarrow> error + nat" where
  "new_data_loader bs =
     (if bs \<le> 0 then Inl (ValueError ''batch_size should be a positive integer value'')
      else Inr (nat bs))"

definition batches :: "nat \<Rightarrow> (nat \<Rightarrow> nat) \<Rightarrow> 'ex list \<Rightarrow> 'ex list list" where
  "batches bs rnd items = chunks bs (shuffle rnd items)"

text \<open>Lines 153 to 156.\<close>

definition expand_home :: "(string \<Rightarrow> string) \<Rightarrow> string \<Rightarrow> string" where
  "expand_home expand path = (if CHR ''~'' \<in> set path then expand path else path)"

text \<open>The arguments the driver passes to the epoch function, lines 232 to 248.\<close>

definition epoch_args_of :: "run_args \<Rightarrow> string \<Rightarrow> optimizer \<Rightarrow> epoch_args" where
  "epoch_args_of a ckpt_dir opt =
     \<lparr>side_x = side_x a, side_y = side_y a, checkpoints_dir = ckpt_dir, device = device a,
      log_frequency = log_frequency a, sample_bs = sample_bs a, sample_gs = sample_gs a,
      optimizer = opt, options_use_fp16 = use_fp16 a, prompt = test_prompt a, outputs_dir = ''./outputs'',
      wandb_run = Some (project_name a)\<rparr>"

text \<open>
  \<^verbatim>\<open>run_glide_finetune\<close>, lines 128 to 248: the body of the loop over the epochs, then
  the function. The tracker session that \<^verbatim>\<open>util.wandb_setup\<close> returns and the driver
  hands to every epoch is named by the project here.
\<close>

definition epoch_events :: "run_args \<Rightarrow> 'ex finetune_env \<Rightarrow> optimizer \<Rightarrow> nat \<Rightarrow> unit io" where
  "epoch_events a env opt epoch =
     bind_io (emit [Print (''Starting epoch '' @ str_nat epoch)]) (\<lambda>_.
       run_glide_finetune_epoch
         (epoch_args_of a (expand_home (expanduser env) (checkpoints_dir a)) opt)
         (train_step_at env epoch)
         (batches (nat (batch_size a)) (shuffle_rnd env epoch)
            (text_image_dataset env (expand_home (expanduser env) (data_dir a)))))"

definition run_glide_finetune :: "run_args \<Rightarrow> 'ex finetune_env \<Rightarrow> unit io" where
  "run_glide_finetune a env =
     (let data_dir = expand_home (expanduser env) (data_dir a);
          checkpoints_dir = expand_home (expanduser env) (checkpoints_dir a)
      in
        bind_io (emit [MakeDirs checkpoints_dir, WandbSetup (project_name a),
                       Print ''Wandb setup.'', LoadBaseModel (resume_ckpt a)]) (\<lambda>_.
        let dataset = text_image_dataset env data_dir in
        bind_io (if 0 < length dataset then return ()
                 else raise (AssertionError ''Dataset is empty'')) (\<lambda>_.
        bind_io (emit [Print (''Dataset contains '' @ str_nat (length dataset) @ '' images'')]) (\<lambda>_.
        bind_io (lift (new_data_loader (batch_size a))) (\<lambda>_.
        bind_io (lift (make_optimizer (use_sgd a) (learning_rate a) (parameters env))) (\<lambda>optimizer.
        bind_io (emit [NewOptimizer optimizer, MakeDirs ''./outputs'', ModelTo (device a),
                       ModelTrain, ModelZeroGrad]) (\<lambda>_.
        for_each (epoch_events a env optimizer) [0..<nat (num_epochs a)])))))))"

subsection \<open>Reading a run\<close>

text \<open>
  The events of the driver before the dataset is looked at, the dataset it builds, the
  directory the checkpoints go to, and the number of batches the loader gives per epoch
  (\<^verbatim>\<open>len(dataloader)\<close>).
\<close>

definition run_prefix :: "run_args \<Rightarrow> 'ex finetune_env \<Rightarrow> event list" where
  "run_prefix a env =
     [MakeDirs (expand_home (expanduser env) (checkpoints_dir a)), WandbSetup (project_name a),
      Print ''Wandb setup.'', LoadBaseModel (resume_ckpt a)]"

definition run_dataset :: "run_args \<Rightarrow> 'ex finetune_env \<Rightarrow> 'ex list" where
  "run_dataset a env = text_image_dataset env (expand_home (expanduser env) (data_dir a))"

definition run_checkpoints_dir :: "run_args \<Rightarrow> 'ex finetune_env \<Rightarrow> string" where
  "run_checkpoints_dir a env = expand_home (expanduser env) (checkpoints_dir a)"

definition batches_per_epoch :: "run_args \<Rightarrow> 'ex finetune_env \<Rightarrow> nat" where
  "batches_per_epoch a env =
     (length (run_dataset a env) + nat (batch_size a) - 1) div nat (batch_size a)"

text \<open>The checkpoints the loop writes inside an epoch of \<open>L\<close> batches, lines 110 and 111.\<close>

definition scheduled_checkpoints :: "string \<Rightarrow> nat \<Rightarrow> string list" where
  "scheduled_checkpoints dir L =
     map (checkpoint_path dir) (filter (\<lambda>k. k mod 1000 = 0 \<and> 0 < k) [0..<L])"

section \<open>Concrete inputs\<close>

text \<open>
  Small inputs on which the definitions are evaluated: a schedule of four steps, a batch
  of one image with two channels, and models whose output has four and three channels.
\<close>

definition ex_q_sample :: "tensor \<Rightarrow> int list \<Rightarrow> tensor \<Rightarrow> tensor" where
  "ex_q_sample x ts n = \<lparr>shape = shape x, elt = (\<lambda>idx. elt x idx + elt n idx)\<rparr>"

definition ex_diffusion :: spaced_diffusion where
  "ex_diffusion = \<lparr>betas = [1 / 10, 2 / 10, 3 / 10, 4 / 10], q_sample = ex_q_sample\<rparr>"

definition ex_x_start :: tensor where
  "ex_x_start = \<lparr>shape = [1, 2, 1, 1], elt = (\<lambda>idx. 1)\<rparr>"

definition ex_batch :: "nat list \<times> nat list \<times> tensor" where
  "ex_batch = ([5, 7], [1, 1], ex_x_start)"

definition ex_rnd :: "nat \<Rightarrow> nat" where
  "ex_rnd i = 5"

definition ex_gauss :: "nat list \<Rightarrow> real" where
  "ex_gauss idx = (if idx = [0, 0, 0, 0] then 1 else 3)"

definition ex_unet3 :: "nat list text2im_unet" where
  "ex_unet3 x ts tokens masks = \<lparr>shape = (shape x)[1 := 3], elt = (\<lambda>idx. 0)\<rparr>"

text \<open>A second generator, and a model whose output shows the first timestep it was given.\<close>

definition ex_rnd1 :: "nat \<Rightarrow> nat" where
  "ex_rnd1 i = 1"

definition ex_unet_probe :: "nat list text2im_unet" where
  "ex_unet_probe x ts tokens masks = \<lparr>shape = (shape x)[1 := 4], elt = (\<lambda>idx. of_int (hd ts))\<rparr>"

definition ex_unet4 :: "nat list text2im_unet" where
  "ex_unet4 x ts tokens masks = \<lparr>shape = (shape x)[1 := 4], elt = (\<lambda>idx. 0)\<rparr>"

text \<open>
  A run with the default arguments of \<^verbatim>\<open>run_glide_finetune\<close> but two epochs, over a
  dataset of two items, the training step at index \<open>i\<close> giving the loss \<open>1 / (i + 2)\<close>.
\<close>

definition ex_run_args :: run_args where
  "ex_run_args =
     \<lparr>side_x = 64, side_y = 64, checkpoints_dir = ''./finetune_checkpoints'', device = ''cpu'',
      log_frequency = 100, sample_bs = 1, sample_gs = 4,
      data_dir = ''./data'', batch_size = 1, learning_rate = 1 / 100000, dropout = 1 / 10,
      resize_ratio = 1, uncond_p = 0, resume_ckpt = '''', use_fp16 = False,
      freeze_transformer = False, freeze_diffusion = False, project_name = ''glide_finetune'',
      activation_checkpointing = True, use_captions = True, num_epochs = 2,
      test_prompt = ''a group of skiers are preparing to ski down a mountain.'',
      use_sgd = False\<rparr>"

definition ex_env :: "nat finetune_env" where
  "ex_env =
     \<lparr>expanduser = (\<lambda>p. p),
      parameters = [\<lparr>name = ''transformer'', requires_grad = False\<rparr>,
                    \<lparr>name = ''unet'', requires_grad = True\<rparr>],
      text_image_dataset = (\<lambda>folder. [10, 11]),
      shuffle_rnd = (\<lambda>epoch i. 0),
      train_step_at = (\<lambda>epoch train_idx batch. Inr (1 / real (train_idx + 2)))\<rparr>"

definition ex_empty_env :: "nat finetune_env" where
  "ex_empty_env = ex_env\<lparr>text_image_dataset := (\<lambda>folder. [])\<rparr>"

definition ex_optimizer :: optimizer where
  "ex_optimizer = AdamW [\<lparr>name = ''unet'', requires_grad = True\<rparr>] (1 / 100000) 0"

definition ex_epoch_args :: epoch_args where
  "ex_epoch_args = epoch_args_of ex_run_args ''./finetune_checkpoints'' ex_optimizer"

definition ex_step :: "nat \<Rightarrow> nat list \<Rightarrow> error + real" where
  "ex_step train_idx batch = Inr (1 / real (train_idx + 2))"

section \<open>Properties of the training step\<close>

subsection \<open>Random timesteps\<close>

lemma randint_range:
  assumes "randint low high n rnd = Inr ts"
  shows "length ts = n \<and> (\<forall>t\<in>set ts. low \<le> t \<and> t < high)"
proof -
  from assms have lh: "low < high"
    and ts: "ts = map (\<lambda>i. low + int (rnd i mod nat (high - low))) [0..<n]"
    by (auto simp: randint_def split: if_splits)
  have "rnd i mod nat (high - low) < nat (high - low)" for i
    using lh by simp
  then have "int (rnd i mod nat (high - low)) < high - low" for i
    by (simp only: zless_nat_eq_int_zless)
  then have "low + int (rnd i mod nat (high - low)) < high" for i
    by (simp add: less_diff_eq add.commute)
  with ts show ?thesis by auto
qed

lemma randint_cover:
  assumes "low < high" and "\<forall>t\<in>set ts. low \<le> t \<and> t < high"
  shows "randint low high (length ts) (\<lambda>i. nat (ts ! i - low)) = Inr ts"
proof -
  have "map (\<lambda>i. low + int (nat (ts ! i - low) mod nat (high - low))) [0..<length ts] = ts"
  proof (rule nth_equalityI)
    show "length (map (\<lambda>i. low + int (nat (ts ! i - low) mod nat (high - low))) [0..<length ts]) = length ts"
      by simp
  next
    fix i assume "i < length (map (\<lambda>i. low + int (nat (ts ! i - low) mod nat (high - low))) [0..<length ts])"
    then have i: "i < length ts" by simp
    then have "low \<le> ts ! i" "ts ! i < high" using assms(2) by auto
    then have "nat (ts ! i - low) < nat (high - low)" by simp
    then have "nat (ts ! i - low) mod nat (high - low) = nat (ts ! i - low)" by simp
    with i \<open>low \<le> ts ! i\<close>
    show "map (\<lambda>i. low + int (nat (ts ! i - low) mod nat (high - low))) [0..<length ts] ! i = ts ! i"
      by simp
  qed
  with assms(1) show ?thesis by (simp add: randint_def)
qed

subsection \<open>Sums over indices, broadcasting\<close>

lemma sum_list_concat_map:
  "sum_list (map f (concat xss)) = (\<Sum>xs\<leftarrow>xss. sum_list (map f xs))"
  by (induction xss) auto

lemma sum_list_indices_Cons:
  "(\<Sum>j\<leftarrow>indices (n # ns). f j) = (\<Sum>i\<leftarrow>[0..<n]. \<Sum>j\<leftarrow>indices ns. f (i # j))"
  by (simp add: sum_list_concat_map comp_def)

lemma sum_list_indices3:
  "(\<Sum>j\<leftarrow>indices [C, H, W]. f j) = (\<Sum>c\<leftarrow>[0..<C]. \<Sum>h\<leftarrow>[0..<H]. \<Sum>w\<leftarrow>[0..<W]. f [c, h, w])"
  by (simp add: sum_list_concat_map comp_def)

lemma broadcast_rev_same: "broadcast_rev xs xs = Some xs"
  by (induction xs) auto

lemma broadcast_shapes_same: "broadcast_shapes s s = Some s"
  by (simp add: broadcast_shapes_def broadcast_rev_same)

lemma broadcast_rev_Nil2: "broadcast_rev xs [] = Some xs"
  by (cases xs) auto

lemma broadcast_rev_commute: "broadcast_rev xs ys = broadcast_rev ys xs"
  by (induction xs ys rule: broadcast_rev.induct) (auto simp: broadcast_rev_Nil2)

lemma tsub_commute_sq:
  "map_sum id (\<lambda>d. tpow d 2) (tsub a b) = map_sum id (\<lambda>d. tpow d 2) (tsub b a)"
  by (auto simp: tsub_def tpow_def broadcast_shapes_def broadcast_rev_commute [of "rev (shape a)"]
      power2_commute split: option.splits)

lemma compute_loss_commute: "compute_loss a b = compute_loss b a"
  using tsub_commute_sq [of a b]
  by (cases "tsub a b"; cases "tsub b a") (auto simp: compute_loss_def)

subsection \<open>Splitting the model output\<close>

lemma num_splits_two:
  assumes "C < K" and "K \<le> 2 * C"
  shows "get_num_splits K C = 2"
proof -
  have "(K + C - 1) div C = 2"
    by (rule div_nat_eqI) (use assms in simp_all)
  with assms show ?thesis by (simp add: get_num_splits_def)
qed

lemma num_splits_one:
  assumes "0 < C" and "K \<le> C"
  shows "get_num_splits K C = 1"
proof (cases "K = 0")
  case True
  with assms show ?thesis by (simp add: get_num_splits_def)
next
  case False
  have "(K + C - 1) div C = 1"
    by (rule div_nat_eqI) (use assms False in simp_all)
  with assms show ?thesis by (simp add: get_num_splits_def)
qed

lemma num_splits_many:
  assumes "0 < C" and "2 * C < K"
  shows "3 \<le> get_num_splits K C"
proof -
  have "3 * C \<le> K + C - 1" using assms by simp
  then have "(3 * C) div C \<le> (K + C - 1) div C" by (rule div_le_mono)
  with assms show ?thesis by (simp add: get_num_splits_def)
qed

lemma th_split_two:
  assumes "shape out = [B, K, H, W]" and "C < K" and "K \<le> 2 * C"
  shows "th_split out C 1 = Inr [narrow out 1 0 C, narrow out 1 C (K - C)]"
proof -
  have upt: "[0..<2] = [0, Suc 0]" by (simp add: upt_rec)
  show ?thesis
    using assms by (simp add: th_split_def num_splits_two upt Let_def)
qed

lemma unpack_pair_many:
  "3 \<le> length xs \<Longrightarrow> unpack_pair xs = Inl (ValueError ''too many values to unpack (expected 2)'')"
  by (cases xs rule: unpack_pair.cases) simp_all

lemma split_epsilon_two:
  assumes "shape out = [B, K, H, W]" and "C < K" and "K \<le> 2 * C"
  shows "split_epsilon out C = Inr (narrow out 1 0 C, narrow out 1 C (K - C))"
  unfolding split_epsilon_def th_split_two [OF assms] by simp

lemma split_epsilon_one:
  assumes "shape out = [B, K, H, W]" and "0 < C" and "K \<le> C"
  shows "split_epsilon out C = Inl (ValueError ''not enough values to unpack (expected 2, got 1)'')"
  using assms by (simp add: split_epsilon_def th_split_def num_splits_one Let_def)

lemma split_epsilon_many:
  assumes "shape out = [B, K, H, W]" and "0 < C" and "2 * C < K"
  shows "split_epsilon out C = Inl (ValueError ''too many values to unpack (expected 2)'')"
proof -
  from assms have "th_split out C 1 =
      Inr (map (\<lambda>i. narrow out 1 (i * C)
                 (if i < get_num_splits K C - 1 then C else C - (C * get_num_splits K C - K)))
             [0..<get_num_splits K C])"
    by (simp add: th_split_def Let_def)
  moreover have "3 \<le> length (map (\<lambda>i. narrow out 1 (i * C)
                 (if i < get_num_splits K C - 1 then C else C - (C * get_num_splits K C - K)))
             [0..<get_num_splits K C])"
    using num_splits_many [OF assms(2,3)] by simp
  ultimately show ?thesis
    by (simp only: split_epsilon_def sum.case unpack_pair_many)
qed

lemma narrow_shape4: "shape out = [B, K, H, W] \<Longrightarrow> shape (narrow out (Suc 0) s n) = [B, n, H, W]"
  by (simp add: narrow_def)

lemma narrow_elt4: "elt (narrow out (Suc 0) s n) [b, c, h, w] = elt out [b, c + s, h, w]"
  by (simp add: narrow_def)

lemma expand_index4:
  "b < B \<Longrightarrow> c < C \<Longrightarrow> h < H \<Longrightarrow> w < W \<Longrightarrow> expand_index [B, C, H, W] [b, c, h, w] = [b, c, h, w]"
  by (auto simp: expand_index_def)

lemma sum_list_upt_cong:
  "(\<And>i. i < n \<Longrightarrow> f i = g i) \<Longrightarrow> (\<Sum>i\<leftarrow>[0..<n]. f i) = (\<Sum>i\<leftarrow>[0..<n]. g i)"
  by (rule arg_cong [where f = sum_list]) simp

lemma mean_mean_flat4:
  assumes "shape t = [B, C, H, W]"
  shows "mean (mean_flat t) =
     (\<Sum>b\<leftarrow>[0..<B]. (\<Sum>c\<leftarrow>[0..<C]. \<Sum>h\<leftarrow>[0..<H]. \<Sum>w\<leftarrow>[0..<W]. elt t [b, c, h, w]) / real (C * H * W)) / real B"
proof -
  have "mean_flat t = \<lparr>shape = [B],
      elt = (\<lambda>idx. (\<Sum>c\<leftarrow>[0..<C]. \<Sum>h\<leftarrow>[0..<H]. \<Sum>w\<leftarrow>[0..<W]. elt t [hd idx, c, h, w]) / real (C * H * W))\<rparr>"
    using assms by (simp add: mean_flat_def numel_def sum_list_indices3 mult.assoc del: indices.simps)
  then show ?thesis
    by (simp add: mean_def numel_def sum_list_indices_Cons del: indices.simps(2))
qed

lemma compute_loss4:
  assumes "shape noise = [B, C, H, W]" and "shape eps = [B, C, H, W]"
  shows "compute_loss noise eps = Inr (squared_error_mean B C H W (elt noise) (elt eps))"
proof -
  define d where "d = \<lparr>shape = [B, C, H, W],
      elt = (\<lambda>idx. elt noise (expand_index [B, C, H, W] idx) - elt eps (expand_index [B, C, H, W] idx))\<rparr>"
  have sub: "tsub noise eps = Inr d"
    using assms by (simp add: tsub_def broadcast_shapes_same d_def)
  have sh: "shape (tpow d 2) = [B, C, H, W]"
    by (simp add: tpow_def d_def)
  have el: "elt (tpow d 2) [b, c, h, w] = (elt noise [b, c, h, w] - elt eps [b, c, h, w])\<^sup>2"
    if "b < B" "c < C" "h < H" "w < W" for b c h w
    using that by (simp add: tpow_def d_def expand_index4)
  have "mean (mean_flat (tpow d 2)) = squared_error_mean B C H W (elt noise) (elt eps)"
    unfolding mean_mean_flat4 [OF sh] squared_error_mean_def
    by (intro sum_list_upt_cong arg_cong2 [where f = "(/)"] refl) (simp add: el)
  with sub show ?thesis by (simp add: compute_loss_def)
qed

subsection \<open>The claims about the training step\<close>

lemma ex_draw: "draw_timesteps ex_diffusion ex_x_start ex_rnd = Inr [2]"
  by (simp add: draw_timesteps_def ex_diffusion_def ex_x_start_def randint_def ex_rnd_def)

lemma draw_timesteps_properties:
  "(\<forall>ts. draw_timesteps glide_diffusion x_start rnd = Inr ts \<longrightarrow>
      (\<exists>B rest. shape x_start = B # rest \<and> length ts = B) \<and>
      (\<forall>t\<in>set ts. 0 \<le> t \<and> t < int (length (betas glide_diffusion)) - 1
                  \<and> t \<noteq> int (length (betas glide_diffusion)) - 1)) \<and>
   (shape x_start \<noteq> [] \<and> 2 \<le> length (betas glide_diffusion) \<longrightarrow>
      (\<exists>ts. draw_timesteps glide_diffusion x_start rnd = Inr ts)) \<and>
   (\<forall>ts B rest. shape x_start = B # rest \<and> length ts = B \<and>
      (\<forall>t\<in>set ts. 0 \<le> t \<and> t < int (length (betas glide_diffusion)) - 1) \<and> 0 < B \<longrightarrow>
      (\<exists>rnd'. draw_timesteps glide_diffusion x_start rnd' = Inr ts))"
proof (intro conjI allI impI)
  fix ts assume a: "draw_timesteps glide_diffusion x_start rnd = Inr ts"
  then obtain B rest where s: "shape x_start = B # rest"
    by (cases "shape x_start") (auto simp: draw_timesteps_def)
  with a have r: "randint 0 (int (length (betas glide_diffusion)) - 1) B rnd = Inr ts"
    by (simp add: draw_timesteps_def)
  from randint_range [OF r] s
  show "\<exists>B rest. shape x_start = B # rest \<and> length ts = B" by simp
  from randint_range [OF r]
  show "\<forall>t\<in>set ts. 0 \<le> t \<and> t < int (length (betas glide_diffusion)) - 1
                  \<and> t \<noteq> int (length (betas glide_diffusion)) - 1"
    by auto
next
  assume "shape x_start \<noteq> [] \<and> 2 \<le> length (betas glide_diffusion)"
  then show "\<exists>ts. draw_timesteps glide_diffusion x_start rnd = Inr ts"
    by (cases "shape x_start") (auto simp: draw_timesteps_def randint_def)
next
  fix ts B rest
  assume a: "shape x_start = B # rest \<and> length ts = B \<and>
      (\<forall>t\<in>set ts. 0 \<le> t \<and> t < int (length (betas glide_diffusion)) - 1) \<and> 0 < B"
  then have "ts \<noteq> []" by auto
  then obtain t where "t \<in> set ts" by (cases ts) auto
  with a have lt: "0 < int (length (betas glide_diffusion)) - 1" by force
  from a have "\<forall>t\<in>set ts. 0 \<le> t \<and> t < int (length (betas glide_diffusion)) - 1" by simp
  from randint_cover [OF lt this] a
  show "\<exists>rnd'. draw_timesteps glide_diffusion x_start rnd' = Inr ts"
    by (auto simp: draw_timesteps_def)
qed

lemma draw_timesteps_range:
  assumes "draw_timesteps glide_diffusion x_start rnd = Inr ts"
  shows "\<forall>t\<in>set ts. 0 \<le> t \<and> t < int (length (betas glide_diffusion)) - 1"
proof -
  from assms obtain B rest where "shape x_start = B # rest"
    by (cases "shape x_start") (auto simp: draw_timesteps_def)
  with assms have "randint 0 (int (length (betas glide_diffusion)) - 1) B rnd = Inr ts"
    by (simp add: draw_timesteps_def)
  from randint_range [OF this] show ?thesis by simp
qed

lemma train_step_model_cong:
  assumes "\<And>x ts tok msk. \<forall>t\<in>set ts. 0 \<le> t \<and> t < int (length (betas glide_diffusion)) - 1 \<Longrightarrow>
      glide_model x ts tok msk = glide_model' x ts tok msk"
  shows "train_step glide_model glide_diffusion batch rnd gauss =
         train_step glide_model' glide_diffusion batch rnd gauss"
proof -
  obtain tokens masks x_start where b: "batch = (tokens, masks, x_start)"
    by (cases batch)
  show ?thesis
  proof (cases "draw_timesteps glide_diffusion x_start rnd")
    case (Inl e)
    then show ?thesis by (simp add: train_step_def b)
  next
    case (Inr ts)
    from draw_timesteps_range [OF Inr] assms
    have eq: "glide_model x ts tok msk = glide_model' x ts tok msk" for x tok msk
      by blast
    show ?thesis by (simp add: train_step_def b Inr Let_def eq split: list.splits)
  qed
qed

lemma train_step_value:
  assumes "draw_timesteps glide_diffusion x_start rnd = Inr ts"
    and "shape (q_sample glide_diffusion x_start ts (randn_like x_start gauss)) = B # C # rest"
  shows "train_step glide_model glide_diffusion (tokens, masks, x_start) rnd gauss =
     (case split_epsilon
             (glide_model (q_sample glide_diffusion x_start ts (randn_like x_start gauss))
                ts tokens masks) C of
        Inl e \<Rightarrow> Inl e
      | Inr (epsilon, _) \<Rightarrow> compute_loss (randn_like x_start gauss) epsilon)"
  using assms by (simp add: train_step_def Let_def)

lemma train_step_squared_error:
  assumes "shape x_start = [B, C, H, W]"
    and "draw_timesteps glide_diffusion x_start rnd = Inr ts"
    and "shape (q_sample glide_diffusion x_start ts (randn_like x_start gauss)) = [B, C, H, W]"
    and "shape (glide_model (q_sample glide_diffusion x_start ts (randn_like x_start gauss))
                  ts tokens masks) = [B, K, H, W]"
    and "C < K" and "K \<le> 2 * C"
  shows "train_step glide_model glide_diffusion (tokens, masks, x_start) rnd gauss =
           Inr (squared_error_mean B C H W gauss
                  (elt (glide_model (q_sample glide_diffusion x_start ts (randn_like x_start gauss))
                          ts tokens masks)))"
proof -
  define model_output
    where "model_output = glide_model (q_sample glide_diffusion x_start ts (randn_like x_start gauss))
                  ts tokens masks"
  have sh: "shape model_output = [B, K, H, W]"
    using assms(4) by (simp add: model_output_def)
  have eps: "split_epsilon model_output C =
      Inr (narrow model_output 1 0 C, narrow model_output 1 C (K - C))"
    using sh assms(5,6) by (rule split_epsilon_two)
  have "compute_loss (randn_like x_start gauss) (narrow model_output 1 0 C) =
      Inr (squared_error_mean B C H W (elt (randn_like x_start gauss))
             (elt (narrow model_output 1 0 C)))"
    by (rule compute_loss4) (simp_all add: randn_like_def assms(1) narrow_shape4 [OF sh])
  also have "squared_error_mean B C H W (elt (randn_like x_start gauss))
             (elt (narrow model_output 1 0 C)) =
      squared_error_mean B C H W gauss (elt model_output)"
    by (simp add: squared_error_mean_def randn_like_def narrow_elt4)
  finally show ?thesis
    using eps by (simp add: train_step_value [OF assms(2,3)] model_output_def [symmetric])
qed

lemma ex_squared_error: "squared_error_mean (Suc 0) 2 (Suc 0) (Suc 0) ex_gauss (\<lambda>idx. 0) = 5"
  by (simp add: squared_error_mean_def ex_gauss_def upt_rec)

lemma train_step_draw_failed:
  assumes "draw_timesteps glide_diffusion x_start rnd = Inl e"
  shows "train_step glide_model glide_diffusion (tokens, masks, x_start) rnd gauss = Inl e"
  using assms by (simp add: train_step_def)

lemma train_step_after_draw:
  assumes "draw_timesteps glide_diffusion x_start rnd = Inr ts"
  shows "train_step glide_model glide_diffusion (tokens, masks, x_start) rnd gauss =
     (case shape (q_sample glide_diffusion x_start ts (randn_like x_start gauss)) of
        [] \<Rightarrow> Inl (ValueError ''not enough values to unpack (expected 2, got 0)'')
      | [B] \<Rightarrow> Inl (ValueError ''not enough values to unpack (expected 2, got 1)'')
      | B # C # rest \<Rightarrow>
          (case split_epsilon
                  (glide_model (q_sample glide_diffusion x_start ts (randn_like x_start gauss))
                     ts tokens masks) C of
             Inl e \<Rightarrow> Inl e
           | Inr (epsilon, other) \<Rightarrow> compute_loss (randn_like x_start gauss) epsilon))"
  using assms by (simp add: train_step_def Let_def split: list.splits)

lemma ex_draw1: "draw_timesteps ex_diffusion ex_x_start ex_rnd1 = Inr [1]"
  by (simp add: draw_timesteps_def ex_diffusion_def ex_x_start_def randint_def ex_rnd1_def)

lemma ex_q_shape_any:
  "shape (q_sample ex_diffusion ex_x_start ts (randn_like ex_x_start ex_gauss)) = [1, 2, 1, 1]"
  by (simp add: ex_diffusion_def ex_q_sample_def ex_x_start_def)

lemma ex_probe_error:
  "squared_error_mean (Suc 0) 2 (Suc 0) (Suc 0) ex_gauss (\<lambda>idx. 2) = 1"
  "squared_error_mean (Suc 0) 2 (Suc 0) (Suc 0) ex_gauss (\<lambda>idx. 1) = 2"
  by (simp_all add: squared_error_mean_def ex_gauss_def upt_rec)

lemma ex_probe_step:
  "train_step ex_unet_probe ex_diffusion ex_batch ex_rnd ex_gauss = Inr 1"
  "train_step ex_unet_probe ex_diffusion ex_batch ex_rnd1 ex_gauss = Inr 2"
proof -
  have 1: "shape ex_x_start = [1, 2, 1, 1]" by (simp add: ex_x_start_def)
  have 3: "shape (ex_unet_probe (q_sample ex_diffusion ex_x_start ts (randn_like ex_x_start ex_gauss))
            ts [5, 7] [1, 1]) = [1, 4, 1, 1]" for ts
    by (simp add: ex_unet_probe_def ex_q_shape_any)
  from train_step_squared_error [where glide_model = ex_unet_probe and tokens = "[5, 7]"
      and masks = "[1, 1]", OF 1 ex_draw ex_q_shape_any 3]
  show "train_step ex_unet_probe ex_diffusion ex_batch ex_rnd ex_gauss = Inr 1"
    by (simp add: ex_unet_probe_def ex_probe_error ex_batch_def)
  from train_step_squared_error [where glide_model = ex_unet_probe and tokens = "[5, 7]"
      and masks = "[1, 1]", OF 1 ex_draw1 ex_q_shape_any 3]
  show "train_step ex_unet_probe ex_diffusion ex_batch ex_rnd1 ex_gauss = Inr 2"
    by (simp add: ex_unet_probe_def ex_probe_error ex_batch_def)
qed

text \<open>
  Claim C1. For every batch the training step draws one timestep per example, a vector
  as long as the batch, from the integer interval \<open>[0, T - 1)\<close> with \<open>T\<close> the length of
  the schedule \<^verbatim>\<open>betas\<close>: every drawn value is non-negative and strictly below \<open>T - 1\<close>,
  so none equals \<open>T - 1\<close>. The draw succeeds whenever the schedule has at least two
  entries, and every vector over the interval is a possible outcome (the whole interval is
  covered). The step uses no other timesteps: what the model would answer at a timestep
  outside the interval has no influence on the result of the step. The drawn vector is
  the one the step works with: when the draw fails, the step fails with the same error
  before the model is called; when the draw gives \<open>ts\<close>, the step noises the batch at
  \<open>ts\<close>, calls the model on the noised batch at the same \<open>ts\<close>, and its result is the
  loss computed from that output. The probability law of the generator itself is not
  part of the model.
\<close>

theorem train_step_timesteps_in_range:
  "(\<forall>ts. draw_timesteps glide_diffusion x_start rnd = Inr ts \<longrightarrow>
      (\<exists>B rest. shape x_start = B # rest \<and> length ts = B) \<and>
      (\<forall>t\<in>set ts. 0 \<le> t \<and> t < int (length (betas glide_diffusion)) - 1
                  \<and> t \<noteq> int (length (betas glide_diffusion)) - 1)) \<and>
   (shape x_start \<noteq> [] \<and> 2 \<le> length (betas glide_diffusion) \<longrightarrow>
      (\<exists>ts. draw_timesteps glide_diffusion x_start rnd = Inr ts)) \<and>
   (\<forall>ts B rest. shape x_start = B # rest \<and> length ts = B \<and>
      (\<forall>t\<in>set ts. 0 \<le> t \<and> t < int (length (betas glide_diffusion)) - 1) \<and> 0 < B \<longrightarrow>
      (\<exists>rnd'. draw_timesteps glide_diffusion x_start rnd' = Inr ts)) \<and>
   (\<forall>glide_model glide_model' tokens masks gauss.
      (\<forall>x ts tok msk.
         (\<forall>t\<in>set ts. 0 \<le> t \<and> t < int (length (betas glide_diffusion)) - 1) \<longrightarrow>
         glide_model x ts tok msk = glide_model' x ts tok msk) \<longrightarrow>
      train_step glide_model glide_diffusion (tokens, masks, x_start) rnd gauss =
      train_step glide_model' glide_diffusion (tokens, masks, x_start) rnd gauss) \<and>
   (\<forall>e glide_model tokens masks gauss.
      draw_timesteps glide_diffusion x_start rnd = Inl e \<longrightarrow>
      train_step glide_model glide_diffusion (tokens, masks, x_start) rnd gauss = Inl e) \<and>
   (\<forall>ts glide_model tokens masks gauss.
      draw_timesteps glide_diffusion x_start rnd = Inr ts \<longrightarrow>
      train_step glide_model glide_diffusion (tokens, masks, x_start) rnd gauss =
        (case shape (q_sample glide_diffusion x_start ts (randn_like x_start gauss)) of
           [] \<Rightarrow> Inl (ValueError ''not enough values to unpack (expected 2, got 0)'')
         | [B] \<Rightarrow> Inl (ValueError ''not enough values to unpack (expected 2, got 1)'')
         | B # C # rest \<Rightarrow>
             (case split_epsilon
                     (glide_model (q_sample glide_diffusion x_start ts (randn_like x_start gauss))
                        ts tokens masks) C of
                Inl e \<Rightarrow> Inl e
              | Inr (epsilon, other) \<Rightarrow> compute_loss (randn_like x_start gauss) epsilon)))"
proof -
  have 4: "\<forall>glide_model glide_model' tokens masks gauss.
      (\<forall>x ts tok msk.
         (\<forall>t\<in>set ts. 0 \<le> t \<and> t < int (length (betas glide_diffusion)) - 1) \<longrightarrow>
         glide_model x ts tok msk = glide_model' x ts tok msk) \<longrightarrow>
      train_step glide_model glide_diffusion (tokens, masks, x_start) rnd gauss =
      train_step glide_model' glide_diffusion (tokens, masks, x_start) rnd gauss"
    by (intro allI impI, rule train_step_model_cong) simp
  have 5: "\<forall>e glide_model tokens masks gauss.
      draw_timesteps glide_diffusion x_start rnd = Inl e \<longrightarrow>
      train_step glide_model glide_diffusion (tokens, masks, x_start) rnd gauss = Inl e"
    by (intro allI impI, rule train_step_draw_failed)
  have 6: "\<forall>ts glide_model tokens masks gauss.
      draw_timesteps glide_diffusion x_start rnd = Inr ts \<longrightarrow>
      train_step glide_model glide_diffusion (tokens, masks, x_start) rnd gauss =
        (case shape (q_sample glide_diffusion x_start ts (randn_like x_start gauss)) of
           [] \<Rightarrow> Inl (ValueError ''not enough values to unpack (expected 2, got 0)'')
         | [B] \<Rightarrow> Inl (ValueError ''not enough values to unpack (expected 2, got 1)'')
         | B # C # rest \<Rightarrow>
             (case split_epsilon
                     (glide_model (q_sample glide_diffusion x_start ts (randn_like x_start gauss))
                        ts tokens masks) C of
                Inl e \<Rightarrow> Inl e
              | Inr (epsilon, other) \<Rightarrow> compute_loss (randn_like x_start gauss) epsilon))"
    by (intro allI impI, rule train_step_after_draw)
  show ?thesis
    by (rule conjI [OF conjunct1 [OF draw_timesteps_properties]
        conjI [OF conjunct1 [OF conjunct2 [OF draw_timesteps_properties]]
        conjI [OF conjunct2 [OF conjunct2 [OF draw_timesteps_properties]]
        conjI [OF 4 conjI [OF 5 6]]]]])
qed

theorem train_step_timesteps_in_range_witness:
  "draw_timesteps ex_diffusion ex_x_start ex_rnd = Inr [2] \<and>
   shape ex_x_start = [1, 2, 1, 1] \<and> length (betas ex_diffusion) = 4 \<and>
   length [2::int] = 1 \<and> (0::int) \<le> 2 \<and> (2::int) < 4 - 1 \<and>
   draw_timesteps ex_diffusion ex_x_start ex_rnd1 = Inr [1] \<and>
   train_step ex_unet_probe ex_diffusion ex_batch ex_rnd ex_gauss = Inr 1 \<and>
   train_step ex_unet_probe ex_diffusion ex_batch ex_rnd1 ex_gauss = Inr 2"
proof -
  from conjunct1 [OF train_step_timesteps_in_range [of ex_diffusion ex_x_start ex_rnd]]
    ex_draw
  have "(\<exists>B rest. shape ex_x_start = B # rest \<and> length [2::int] = B) \<and>
    (\<forall>t\<in>set [2::int]. 0 \<le> t \<and> t < int (length (betas ex_diffusion)) - 1
        \<and> t \<noteq> int (length (betas ex_diffusion)) - 1)"
    by (elim allE [of _ "[2]"] impE) assumption+
  then show ?thesis
    using ex_draw ex_draw1 ex_probe_step by (simp add: ex_diffusion_def ex_x_start_def)
qed

text \<open>
  Claim C2. For a batch of shape \<open>(B, C, H, W)\<close> whose model output has between \<open>C + 1\<close>
  and \<open>2C\<close> channels, the loss returned by the training step is the mean over the batch of
  the per-example mean over all non-batch dimensions of the squared error between the
  injected noise and the first \<open>C\<close> channels of the model output, the predicted noise.
  The loss is symmetric: exchanging noise and prediction in the difference gives the same
  result.
\<close>

theorem train_step_loss:
  assumes "shape x_start = [B, C, H, W]"
    and "draw_timesteps glide_diffusion x_start rnd = Inr ts"
    and "x_t = q_sample glide_diffusion x_start ts (randn_like x_start gauss)"
    and "shape x_t = [B, C, H, W]"
    and "model_output = glide_model x_t ts tokens masks"
    and "shape model_output = [B, K, H, W]"
    and "C < K" and "K \<le> 2 * C"
  shows "train_step glide_model glide_diffusion (tokens, masks, x_start) rnd gauss =
           Inr (squared_error_mean B C H W gauss (elt model_output)) \<and>
         (\<forall>noise epsilon. compute_loss noise epsilon = compute_loss epsilon noise)"
  using train_step_squared_error [where glide_model = glide_model and tokens = tokens
      and masks = masks, OF assms(1,2) assms(4) [unfolded assms(3)]
      assms(6) [unfolded assms(5) assms(3)] assms(7,8)]
  by (simp add: compute_loss_commute assms(3,5))

theorem train_step_loss_witness:
  "shape ex_x_start = [1, 2, 1, 1] \<and>
   draw_timesteps ex_diffusion ex_x_start ex_rnd = Inr [2] \<and>
   shape (q_sample ex_diffusion ex_x_start [2] (randn_like ex_x_start ex_gauss)) = [1, 2, 1, 1] \<and>
   shape (ex_unet4 (q_sample ex_diffusion ex_x_start [2] (randn_like ex_x_start ex_gauss))
            [2] [5, 7] [1, 1]) = [1, 4, 1, 1] \<and>
   train_step ex_unet4 ex_diffusion ex_batch ex_rnd ex_gauss = Inr 5"
proof -
  have 1: "shape ex_x_start = [1, 2, 1, 1]" by (simp add: ex_x_start_def)
  have 2: "shape (q_sample ex_diffusion ex_x_start [2] (randn_like ex_x_start ex_gauss)) = [1, 2, 1, 1]"
    by (simp add: ex_diffusion_def ex_q_sample_def ex_x_start_def)
  have 3: "shape (ex_unet4 (q_sample ex_diffusion ex_x_start [2] (randn_like ex_x_start ex_gauss))
            [2] [5, 7] [1, 1]) = [1, 4, 1, 1]"
    by (simp add: ex_unet4_def 2)
  from train_step_loss [where glide_model = ex_unet4 and tokens = "[5, 7]" and masks = "[1, 1]"
      and gauss = ex_gauss, OF 1 ex_draw refl 2 refl 3]
  have "train_step ex_unet4 ex_diffusion ([5, 7], [1, 1], ex_x_start) ex_rnd ex_gauss = Inr 5"
    by (simp add: ex_unet4_def ex_squared_error)
  with 1 2 3 ex_draw show ?thesis by (simp add: ex_batch_def)
qed

text \<open>
  Claim C7, as amended. When the model output has \<open>2C\<close> channels for an image tensor of
  shape \<open>(B, C, H, W)\<close>, the split yields two tensors of shape \<open>(B, C, H, W)\<close>, the first
  holding the first \<open>C\<close> channels of the output and being the one the loss is computed
  from, the second ignored. When the channel count \<open>K\<close> is not \<open>2C\<close>, the training step
  behaves as follows: for \<open>C < K < 2C\<close> it goes on to the loss with the first \<open>C\<close>
  channels and a second part of \<open>K - C\<close> channels, and for \<open>K \<le> C\<close> or \<open>K > 2C\<close> the
  unpacking of the split inside the training step raises \<^verbatim>\<open>ValueError\<close>.
\<close>

theorem train_step_split:
  assumes "draw_timesteps glide_diffusion x_start rnd = Inr ts"
    and "x_t = q_sample glide_diffusion x_start ts (randn_like x_start gauss)"
    and "shape x_t = [B, C, H, W]"
    and "model_output = glide_model x_t ts tokens masks"
    and "shape model_output = [B, K, H, W]"
    and "0 < C"
  shows "(K = 2 * C \<longrightarrow>
            (\<exists>epsilon rest. split_epsilon model_output C = Inr (epsilon, rest) \<and>
               shape epsilon = [B, C, H, W] \<and> shape rest = [B, C, H, W] \<and>
               (\<forall>b c h w. elt epsilon [b, c, h, w] = elt model_output [b, c, h, w]) \<and>
               train_step glide_model glide_diffusion (tokens, masks, x_start) rnd gauss =
                 compute_loss (randn_like x_start gauss) epsilon)) \<and>
         (C < K \<and> K < 2 * C \<longrightarrow>
            (\<exists>epsilon rest. split_epsilon model_output C = Inr (epsilon, rest) \<and>
               shape epsilon = [B, C, H, W] \<and> shape rest = [B, K - C, H, W] \<and>
               (\<forall>b c h w. elt epsilon [b, c, h, w] = elt model_output [b, c, h, w]) \<and>
               train_step glide_model glide_diffusion (tokens, masks, x_start) rnd gauss =
                 compute_loss (randn_like x_start gauss) epsilon)) \<and>
         (K \<le> C \<longrightarrow>
            train_step glide_model glide_diffusion (tokens, masks, x_start) rnd gauss =
              Inl (ValueError ''not enough values to unpack (expected 2, got 1)'')) \<and>
         (2 * C < K \<longrightarrow>
            train_step glide_model glide_diffusion (tokens, masks, x_start) rnd gauss =
              Inl (ValueError ''too many values to unpack (expected 2)''))"
proof -
  note ts = train_step_value [OF assms(1) assms(3) [unfolded assms(2)], of glide_model tokens masks,
      folded assms(2), folded assms(4)]
  have two: "split_epsilon model_output C = Inr (narrow model_output 1 0 C, narrow model_output 1 C (K - C))"
    if "C < K" "K \<le> 2 * C"
    using assms(5) that by (rule split_epsilon_two)
  have sh: "shape (narrow model_output 1 s n) = [B, n, H, W]" for s n
    using narrow_shape4 [OF assms(5)] by simp
  have el: "elt (narrow model_output 1 0 C) [b, c, h, w] = elt model_output [b, c, h, w]" for b c h w
    by (simp add: narrow_elt4)
  show ?thesis
  proof (intro conjI impI)
    assume K: "K = 2 * C"
    with assms(6) have "C < K" "K \<le> 2 * C" "K - C = C" by simp_all
    with two sh el ts
    show "\<exists>epsilon rest. split_epsilon model_output C = Inr (epsilon, rest) \<and>
               shape epsilon = [B, C, H, W] \<and> shape rest = [B, C, H, W] \<and>
               (\<forall>b c h w. elt epsilon [b, c, h, w] = elt model_output [b, c, h, w]) \<and>
               train_step glide_model glide_diffusion (tokens, masks, x_start) rnd gauss =
                 compute_loss (randn_like x_start gauss) epsilon"
      by simp
  next
    assume "C < K \<and> K < 2 * C"
    then have "C < K" "K \<le> 2 * C" by simp_all
    with two sh el ts
    show "\<exists>epsilon rest. split_epsilon model_output C = Inr (epsilon, rest) \<and>
               shape epsilon = [B, C, H, W] \<and> shape rest = [B, K - C, H, W] \<and>
               (\<forall>b c h w. elt epsilon [b, c, h, w] = elt model_output [b, c, h, w]) \<and>
               train_step glide_model glide_diffusion (tokens, masks, x_start) rnd gauss =
                 compute_loss (randn_like x_start gauss) epsilon"
      by simp
  next
    assume "K \<le> C"
    with split_epsilon_one [OF assms(5,6)] ts
    show "train_step glide_model glide_diffusion (tokens, masks, x_start) rnd gauss =
              Inl (ValueError ''not enough values to unpack (expected 2, got 1)'')"
      by simp
  next
    assume "2 * C < K"
    with split_epsilon_many [OF assms(5,6)] ts
    show "train_step glide_model glide_diffusion (tokens, masks, x_start) rnd gauss =
              Inl (ValueError ''too many values to unpack (expected 2)'')"
      by simp
  qed
qed

lemma ex_q_shape:
  "shape (q_sample ex_diffusion ex_x_start [2] (randn_like ex_x_start ex_gauss)) = [1, 2, 1, 1]"
  by (simp add: ex_diffusion_def ex_q_sample_def ex_x_start_def)

theorem train_step_split_witness:
  "draw_timesteps ex_diffusion ex_x_start ex_rnd = Inr [2] \<and>
   shape (q_sample ex_diffusion ex_x_start [2] (randn_like ex_x_start ex_gauss)) = [1, 2, 1, 1] \<and>
   shape (ex_unet4 (q_sample ex_diffusion ex_x_start [2] (randn_like ex_x_start ex_gauss))
            [2] [5, 7] [1, 1]) = [1, 4, 1, 1] \<and> (0::nat) < 2 \<and> (4::nat) = 2 * 2 \<and>
   (\<exists>epsilon rest.
      split_epsilon (ex_unet4 (q_sample ex_diffusion ex_x_start [2] (randn_like ex_x_start ex_gauss))
            [2] [5, 7] [1, 1]) 2 = Inr (epsilon, rest) \<and>
      shape epsilon = [1, 2, 1, 1] \<and> shape rest = [1, 2, 1, 1])"
proof -
  have 3: "shape (ex_unet4 (q_sample ex_diffusion ex_x_start [2] (randn_like ex_x_start ex_gauss))
            [2] [5, 7] [1, 1]) = [1, 4, 1, 1]"
    by (simp add: ex_unet4_def ex_q_shape)
  have 4: "(0::nat) < 2" by simp
  from train_step_split [where glide_model = ex_unet4 and tokens = "[5, 7]" and masks = "[1, 1]"
      and gauss = ex_gauss, OF ex_draw refl ex_q_shape refl 3 4]
  have "\<exists>epsilon rest.
      split_epsilon (ex_unet4 (q_sample ex_diffusion ex_x_start [2] (randn_like ex_x_start ex_gauss))
            [2] [5, 7] [1, 1]) 2 = Inr (epsilon, rest) \<and>
      shape epsilon = [1, 2, 1, 1] \<and> shape rest = [1, 2, 1, 1]"
    by auto
  with ex_draw ex_q_shape 3 show ?thesis by simp
qed

text \<open>
  The claim as worded fails: with an image of two channels and a model output of three,
  the training step raises nothing and returns a loss.
\<close>

theorem train_step_split_counterexample:
  "shape (q_sample ex_diffusion ex_x_start [2] (randn_like ex_x_start ex_gauss)) = [1, 2, 1, 1] \<and>
   shape (ex_unet3 (q_sample ex_diffusion ex_x_start [2] (randn_like ex_x_start ex_gauss))
            [2] [5, 7] [1, 1]) = [1, 3, 1, 1] \<and>
   train_step ex_unet3 ex_diffusion ex_batch ex_rnd ex_gauss = Inr 5"
proof -
  have 1: "shape ex_x_start = [1, 2, 1, 1]" by (simp add: ex_x_start_def)
  have 3: "shape (ex_unet3 (q_sample ex_diffusion ex_x_start [2] (randn_like ex_x_start ex_gauss))
            [2] [5, 7] [1, 1]) = [1, 3, 1, 1]"
    by (simp add: ex_unet3_def ex_q_shape)
  from train_step_squared_error [where glide_model = ex_unet3 and tokens = "[5, 7]"
      and masks = "[1, 1]", OF 1 ex_draw ex_q_shape 3]
  have "train_step ex_unet3 ex_diffusion ([5, 7], [1, 1], ex_x_start) ex_rnd ex_gauss = Inr 5"
    by (simp add: ex_unet3_def ex_squared_error)
  with ex_q_shape 3 show ?thesis by (simp add: ex_batch_def)
qed

lemma ex_train_step_unet4: "train_step ex_unet4 ex_diffusion ex_batch ex_rnd ex_gauss = Inr 5"
proof -
  have 1: "shape ex_x_start = [1, 2, 1, 1]" by (simp add: ex_x_start_def)
  have 3: "shape (ex_unet4 (q_sample ex_diffusion ex_x_start [2] (randn_like ex_x_start ex_gauss))
            [2] [5, 7] [1, 1]) = [1, 4, 1, 1]"
    by (simp add: ex_unet4_def ex_q_shape)
  from train_step_squared_error [where glide_model = ex_unet4 and tokens = "[5, 7]"
      and masks = "[1, 1]", OF 1 ex_draw ex_q_shape 3]
  show ?thesis
    by (simp add: ex_unet4_def ex_squared_error ex_batch_def)
qed

section \<open>Properties of the epoch loop\<close>

subsection \<open>Sequencing and loops\<close>

lemma bind_io_emit: "bind_io (emit evs) f = (evs @ fst (f ()), snd (f ()))"
  by (simp add: bind_io_def emit_def split: prod.splits)

lemma bind_io_lift_Inl: "bind_io (lift (Inl e)) f = ([], Inl e)"
  by (simp add: bind_io_def lift_def)

lemma bind_io_lift_Inr: "bind_io (lift (Inr x)) f = f x"
  by (simp add: bind_io_def lift_def split: prod.splits)

lemma snd_bind_io_Inr:
  "snd (bind_io m f) = Inr y \<longleftrightarrow> (\<exists>x. snd m = Inr x \<and> snd (f x) = Inr y)"
  by (auto simp: bind_io_def split: prod.splits sum.splits)

lemma for_each_ok:
  "snd (for_each body xs) = Inr u \<Longrightarrow>
     (\<forall>x\<in>set xs. snd (body x) = Inr ()) \<and>
     fst (for_each body xs) = concat (map (\<lambda>x. fst (body x)) xs)"
  by (induction xs) (auto split: prod.splits sum.splits)

lemma log_loss_cases:
  "log_loss i l =
     (if i mod 10 \<noteq> 0 then ([TqdmWrite l], Inr [(''iter'', LInt (int i)), (''loss'', LFloat l)])
      else ([], Inr []))"
  by (simp add: log_loss_def return_def)

lemma sample_from_model_events:
  "gradient_events (fst (sample_from_model a i r)) = [] \<and>
   wandb_logs (fst (sample_from_model a i r)) = [] \<and>
   checkpoint_writes (fst (sample_from_model a i r)) = [] \<and>
   iterations (fst (sample_from_model a i r)) = []"
  by (simp add: sample_from_model_def gradient_events_def return_def raise_def Let_def)

lemma checkpoint_if_due_events:
  "gradient_events (checkpoint_if_due a i) = [] \<and>
   wandb_logs (checkpoint_if_due a i) = [] \<and>
   checkpoint_writes (checkpoint_if_due a i) =
     (if i mod 1000 = 0 \<and> 0 < i then [checkpoint_path (checkpoints_dir a) i] else []) \<and>
   iterations (checkpoint_if_due a i) = []"
  by (simp add: checkpoint_if_due_def save_model_def gradient_events_def)

lemma loop_body_Inl: "step i b = Inl e \<Longrightarrow> loop_body a step (i, b) = ([Iter i], Inl e)"
  by (simp add: loop_body_def bind_io_emit bind_io_lift_Inl)

lemma loop_body_Inr:
  "step i b = Inr l \<Longrightarrow>
     loop_body a step (i, b) =
       ([Iter i, Backward l, Optimize (optimizer a), ZeroGrad] @ fst (after_step a i l), snd (after_step a i l))"
  by (simp add: loop_body_def bind_io_emit bind_io_lift_Inr after_step_def)

lemma gradient_events_append: "gradient_events (xs @ ys) = gradient_events xs @ gradient_events ys"
  by (simp add: gradient_events_def)

lemma wandb_logs_append: "wandb_logs (xs @ ys) = wandb_logs xs @ wandb_logs ys"
  by (induction xs rule: wandb_logs.induct) auto

lemma checkpoint_writes_append: "checkpoint_writes (xs @ ys) = checkpoint_writes xs @ checkpoint_writes ys"
  by (induction xs rule: checkpoint_writes.induct) auto

lemma iterations_append: "iterations (xs @ ys) = iterations xs @ iterations ys"
  by (induction xs rule: iterations.induct) auto

lemma fst_bind_io:
  "fst (bind_io m f) = fst m @ (case snd m of Inl e \<Rightarrow> [] | Inr x \<Rightarrow> fst (f x))"
  by (auto simp: bind_io_def split: prod.splits sum.splits)

lemma gradient_events_simps:
  "gradient_events [] = []"
  "gradient_events (e # evs) = (if is_gradient_event e then e # gradient_events evs else gradient_events evs)"
  by (simp_all add: gradient_events_def)

lemma log_loss_events:
  "gradient_events (fst (log_loss i l)) = [] \<and>
   wandb_logs (fst (log_loss i l)) = [] \<and>
   checkpoint_writes (fst (log_loss i l)) = [] \<and>
   iterations (fst (log_loss i l)) = []"
  by (simp add: log_loss_cases gradient_events_simps)

lemma wandb_log_events:
  "gradient_events (fst (wandb_log run r)) = [] \<and>
   wandb_logs (fst (wandb_log run r)) = (case run of None \<Rightarrow> [] | Some _ \<Rightarrow> [r]) \<and>
   checkpoint_writes (fst (wandb_log run r)) = [] \<and>
   iterations (fst (wandb_log run r)) = []"
  by (simp add: wandb_log_def emit_def raise_def gradient_events_simps split: option.splits)

lemma fst_emit: "fst (emit evs) = evs"
  by (simp add: emit_def)

lemma after_step_gradient_events: "gradient_events (fst (after_step a i l)) = []"
  by (simp add: after_step_def fst_bind_io gradient_events_append log_loss_events gradient_events_simps
      sample_from_model_events checkpoint_if_due_events wandb_log_events fst_emit
      split: sum.splits)

lemma after_step_iterations: "iterations (fst (after_step a i l)) = []"
  by (simp add: after_step_def fst_bind_io iterations_append log_loss_events
      sample_from_model_events checkpoint_if_due_events wandb_log_events fst_emit
      split: sum.splits)

lemma loop_body_gradient_events:
  "gradient_events (fst (loop_body a step (i, b))) =
     (case step i b of Inl e \<Rightarrow> [] | Inr l \<Rightarrow> [Backward l, Optimize (optimizer a), ZeroGrad])"
  by (cases "step i b")
    (simp_all add: loop_body_Inl loop_body_Inr gradient_events_append after_step_gradient_events
      gradient_events_simps)

lemma loop_body_iterations: "iterations (fst (loop_body a step (i, b))) = [i]"
  by (cases "step i b")
    (simp_all add: loop_body_Inl loop_body_Inr iterations_append after_step_iterations)

lemma loop_body_ok_step: "snd (loop_body a step (i, b)) = Inr u \<Longrightarrow> \<exists>l. step i b = Inr l"
  by (cases "step i b") (simp_all add: loop_body_Inl)

lemma snd_emit: "snd (emit evs) = Inr ()"
  by (simp add: emit_def)

lemma after_step_ok:
  assumes "snd (after_step a i l) = Inr u"
  shows "\<exists>r1 r2. snd (log_loss i l) = Inr r1 \<and> snd (sample_from_model a i r1) = Inr r2 \<and>
           wandb_run a \<noteq> None \<and>
           fst (after_step a i l) =
             fst (log_loss i l) @ fst (sample_from_model a i r1) @ checkpoint_if_due a i @ [WandbLog r2]"
proof -
  from assms obtain r1 r2 where 1: "snd (log_loss i l) = Inr r1"
    and 2: "snd (sample_from_model a i r1) = Inr r2"
    and 3: "snd (wandb_log (wandb_run a) r2) = Inr u"
    by (auto simp: after_step_def snd_bind_io_Inr)
  from 3 have 4: "wandb_run a \<noteq> None"
    by (auto simp: wandb_log_def raise_def split: option.splits)
  then have 5: "fst (wandb_log (wandb_run a) r2) = [WandbLog r2]"
    by (auto simp: wandb_log_def emit_def)
  show ?thesis
    using 1 2 4 5 by (simp add: after_step_def fst_bind_io snd_emit fst_emit)
qed

lemma sample_from_model_ok:
  assumes "snd (sample_from_model a i r1) = Inr r2"
  shows "r2 = (if 0 < i \<and> int i mod log_frequency a = 0
               then AList.update ''samples''
                      (LImage (os_path_join (outputs_dir a) (str_nat i @ ''.png'')) (prompt a))
                      (AList.update ''iter'' (LInt (int i)) r1)
               else r1)"
  using assms by (auto simp: sample_from_model_def return_def raise_def Let_def split: if_splits)

lemma loop_body_logs:
  assumes "snd (loop_body a step (i, b)) = Inr u"
  shows "\<exists>l r. step i b = Inr l \<and> wandb_logs (fst (loop_body a step (i, b))) = [r] \<and>
           map_of r ''loss'' = (if i mod 10 = 0 then None else Some (LFloat l)) \<and>
           (r = [] \<longleftrightarrow> i mod 10 = 0 \<and> (i = 0 \<or> int i mod log_frequency a \<noteq> 0))"
proof -
  from assms obtain l where l: "step i b = Inr l"
    by (auto dest: loop_body_ok_step)
  with assms have "snd (after_step a i l) = Inr u"
    by (simp add: loop_body_Inr)
  from after_step_ok [OF this] obtain r1 r2 where 1: "snd (log_loss i l) = Inr r1"
    and 2: "snd (sample_from_model a i r1) = Inr r2"
    and ev: "fst (after_step a i l) =
             fst (log_loss i l) @ fst (sample_from_model a i r1) @ checkpoint_if_due a i @ [WandbLog r2]"
    by auto
  have logs: "wandb_logs (fst (loop_body a step (i, b))) = [r2]"
    by (simp add: loop_body_Inr [of step, OF l] ev wandb_logs_append log_loss_events
        sample_from_model_events checkpoint_if_due_events)
  from 1 have r1: "r1 = (if i mod 10 \<noteq> 0 then [(''iter'', LInt (int i)), (''loss'', LFloat l)] else [])"
    by (auto simp: log_loss_cases split: if_splits)
  note r2 = sample_from_model_ok [OF 2]
  have "map_of r2 ''loss'' = (if i mod 10 = 0 then None else Some (LFloat l))"
    by (simp add: r1 r2 )
  moreover have "r2 = [] \<longleftrightarrow> i mod 10 = 0 \<and> (i = 0 \<or> int i mod log_frequency a \<noteq> 0)"
    by (auto simp add: r1 r2)
  ultimately show ?thesis
    using l logs by (intro exI [of _ l] exI [of _ r2]) simp
qed

lemma loop_body_checkpoints:
  assumes "snd (loop_body a step (i, b)) = Inr u"
  shows "checkpoint_writes (fst (loop_body a step (i, b))) =
     (if i mod 1000 = 0 \<and> 0 < i then [checkpoint_path (checkpoints_dir a) i] else [])"
proof -
  from assms obtain l where l: "step i b = Inr l"
    by (auto dest: loop_body_ok_step)
  with assms have "snd (after_step a i l) = Inr u"
    by (simp add: loop_body_Inr)
  from after_step_ok [OF this] obtain r1 r2 where
    ev: "fst (after_step a i l) =
             fst (log_loss i l) @ fst (sample_from_model a i r1) @ checkpoint_if_due a i @ [WandbLog r2]"
    by auto
  show ?thesis
    by (simp add: loop_body_Inr [of step, OF l] ev checkpoint_writes_append log_loss_events
        sample_from_model_events checkpoint_if_due_events)
qed

subsection \<open>The gradient calls of an epoch\<close>

lemma epoch_events:
  "fst (run_glide_finetune_epoch a step dl) =
     [MakeDirs (checkpoints_dir a), NewTrainer (options_use_fp16 a), ZeroGrad]
     @ fst (for_each (loop_body a step) (enumerate 0 dl))
     @ (case snd (for_each (loop_body a step) (enumerate 0 dl)) of
          Inl e \<Rightarrow> []
        | Inr _ \<Rightarrow> Print ''Finished training, saving final checkpoint''
                   # (if dl = [] then [] else save_model (checkpoints_dir a) (length dl - 1)))"
  by (simp add: run_glide_finetune_epoch_def bind_io_emit fst_bind_io raise_def emit_def
      split: sum.splits)

lemma epoch_ok:
  "snd (run_glide_finetune_epoch a step dl) = Inr u \<longleftrightarrow>
     snd (for_each (loop_body a step) (enumerate 0 dl)) = Inr () \<and> dl \<noteq> []"
  by (auto simp: run_glide_finetune_epoch_def bind_io_emit snd_bind_io_Inr raise_def emit_def)

lemma loop_gradient_events:
  "\<exists>ls. length ls \<le> length items \<and>
     gradient_events (fst (for_each (loop_body a step) items)) =
       concat (map (\<lambda>l. [Backward l, Optimize (optimizer a), ZeroGrad]) ls) \<and>
     (snd (for_each (loop_body a step) items) = Inr () \<longrightarrow>
        map Inr ls = map (\<lambda>(i, b). step i b) items)"
proof (induction items)
  case Nil
  show ?case by (simp add: gradient_events_simps)
next
  case (Cons x xs)
  obtain i b where x: "x = (i, b)" by (cases x)
  from Cons.IH obtain ls where ls: "length ls \<le> length xs"
    "gradient_events (fst (for_each (loop_body a step) xs)) =
       concat (map (\<lambda>l. [Backward l, Optimize (optimizer a), ZeroGrad]) ls)"
    "snd (for_each (loop_body a step) xs) = Inr () \<longrightarrow> map Inr ls = map (\<lambda>(i, b). step i b) xs"
    by blast
  obtain evs r where body: "loop_body a step (i, b) = (evs, r)"
    by (cases "loop_body a step (i, b)")
  have ge: "gradient_events evs = (case step i b of Inl e \<Rightarrow> [] | Inr l \<Rightarrow> [Backward l, Optimize (optimizer a), ZeroGrad])"
    using loop_body_gradient_events [of a step i b] body by simp
  show ?case
  proof (cases r)
    case (Inl e)
    show ?thesis
    proof (cases "step i b")
      case (Inl e')
      with ge body \<open>r = Inl e\<close> x show ?thesis
        by (intro exI [of _ "[]"]) simp
    next
      case (Inr l)
      with ge body \<open>r = Inl e\<close> x show ?thesis
        by (intro exI [of _ "[l]"]) simp
    qed
  next
    case (Inr u)
    with body have "snd (loop_body a step (i, b)) = Inr u" by simp
    then obtain l where l: "step i b = Inr l"
      by (auto dest: loop_body_ok_step)
    obtain evs' r' where rest: "for_each (loop_body a step) xs = (evs', r')"
      by (cases "for_each (loop_body a step) xs")
    from ls rest ge l body Inr x show ?thesis
      by (intro exI [of _ "l # ls"]) (simp add: gradient_events_append)
  qed
qed

lemma trainer_run_gradient_events: "trainer_run g evs = trainer_run g (gradient_events evs)"
proof (induction evs arbitrary: g)
  case Nil
  show ?case by (simp add: gradient_events_simps)
next
  case (Cons e evs)
  then show ?case
    by (cases e) (simp_all add: trainer_run_def gradient_events_simps)
qed

lemma optimizer_steps_gradient_events: "optimizer_steps evs = optimizer_steps (gradient_events evs)"
  by (induction evs rule: optimizer_steps.induct) (simp_all add: gradient_events_simps)

lemma trainer_run_batches:
  "pending g = [] \<Longrightarrow>
     trainer_run g (concat (map (\<lambda>l. [Backward l, Optimize opt, ZeroGrad]) ls)) =
       g\<lparr>applied := applied g @ map (\<lambda>l. [l]) ls\<rparr>"
proof (induction ls arbitrary: g)
  case Nil
  then show ?case by (simp add: trainer_run_def)
next
  case (Cons l ls)
  have eq: "g\<lparr>applied := applied g @ [[l]], pending := []\<rparr> = g\<lparr>applied := applied g @ [[l]]\<rparr>"
    using Cons.prems by (simp add: grad_state.equality)
  have "trainer_run g (concat (map (\<lambda>l. [Backward l, Optimize opt, ZeroGrad]) (l # ls))) =
      trainer_run (g\<lparr>applied := applied g @ [[l]]\<rparr>)
        (concat (map (\<lambda>l. [Backward l, Optimize opt, ZeroGrad]) ls))"
    using Cons.prems by (simp add: trainer_run_def eq)
  also have "\<dots> = g\<lparr>applied := applied g @ [[l]]\<rparr>
      \<lparr>applied := applied (g\<lparr>applied := applied g @ [[l]]\<rparr>) @ map (\<lambda>l. [l]) ls\<rparr>"
    using Cons.prems by (intro Cons.IH) simp
  finally show ?case by simp
qed

lemma epoch_gradient_events:
  "gradient_events (fst (run_glide_finetune_epoch a step dl)) =
     ZeroGrad # gradient_events (fst (for_each (loop_body a step) (enumerate 0 dl)))"
  by (simp add: epoch_events gradient_events_append gradient_events_simps save_model_def
      split: sum.splits)

lemma epoch_gradient_summary:
  "\<exists>ls. length ls \<le> length dataloader \<and>
     gradient_events (fst (run_glide_finetune_epoch a step dataloader)) =
       ZeroGrad # concat (map (\<lambda>l. [Backward l, Optimize (optimizer a), ZeroGrad]) ls) \<and>
     optimizer_steps (fst (run_glide_finetune_epoch a step dataloader)) =
       replicate (length ls) (optimizer a) \<and>
     applied (trainer_run g (fst (run_glide_finetune_epoch a step dataloader))) =
       applied g @ map (\<lambda>l. [l]) ls \<and>
     pending (trainer_run g (fst (run_glide_finetune_epoch a step dataloader))) = [] \<and>
     (snd (run_glide_finetune_epoch a step dataloader) = Inr () \<longrightarrow>
        map Inr ls = map (\<lambda>(i, b). step i b) (enumerate 0 dataloader))"
proof -
  let ?evs = "fst (run_glide_finetune_epoch a step dataloader)"
  from loop_gradient_events [of "enumerate 0 dataloader" a step]
  obtain ls where ls: "length ls \<le> length dataloader"
    "gradient_events (fst (for_each (loop_body a step) (enumerate 0 dataloader))) =
       concat (map (\<lambda>l. [Backward l, Optimize (optimizer a), ZeroGrad]) ls)"
    "snd (for_each (loop_body a step) (enumerate 0 dataloader)) = Inr () \<longrightarrow>
        map Inr ls = map (\<lambda>(i, b). step i b) (enumerate 0 dataloader)"
    by auto
  have ge: "gradient_events ?evs = ZeroGrad # concat (map (\<lambda>l. [Backward l, Optimize (optimizer a), ZeroGrad]) ls)"
    by (simp add: epoch_gradient_events ls(2))
  have "optimizer_steps ?evs = optimizer_steps (gradient_events ?evs)"
    by (rule optimizer_steps_gradient_events)
  also have "\<dots> = replicate (length ls) (optimizer a)"
    unfolding ge by (induction ls) simp_all
  finally have steps: "optimizer_steps ?evs = replicate (length ls) (optimizer a)" .
  have "trainer_run g ?evs =
      trainer_run (g\<lparr>pending := []\<rparr>) (concat (map (\<lambda>l. [Backward l, Optimize (optimizer a), ZeroGrad]) ls))"
    by (subst trainer_run_gradient_events) (simp add: ge trainer_run_def)
  also have "\<dots> = g\<lparr>pending := [], applied := applied g @ map (\<lambda>l. [l]) ls\<rparr>"
    by (subst trainer_run_batches) simp_all
  finally have tr: "trainer_run g ?evs = g\<lparr>pending := [], applied := applied g @ map (\<lambda>l. [l]) ls\<rparr>" .
  from ls(1) ge steps tr ls(3) show ?thesis
    by (intro exI [of _ ls]) (simp add: epoch_ok)
qed


subsection \<open>The claims about one epoch\<close>

lemma epoch_ok_events:
  assumes "snd (run_glide_finetune_epoch a step dl) = Inr u"
  shows "fst (run_glide_finetune_epoch a step dl) =
           [MakeDirs (checkpoints_dir a), NewTrainer (options_use_fp16 a), ZeroGrad]
           @ concat (map (\<lambda>x. fst (loop_body a step x)) (enumerate 0 dl))
           @ Print ''Finished training, saving final checkpoint''
             # save_model (checkpoints_dir a) (length dl - 1)"
    and "\<forall>x\<in>set (enumerate 0 dl). snd (loop_body a step x) = Inr ()"
    and "dl \<noteq> []"
proof -
  from assms have ok: "snd (for_each (loop_body a step) (enumerate 0 dl)) = Inr ()" and ne: "dl \<noteq> []"
    by (simp_all add: epoch_ok)
  from for_each_ok [OF ok] ne ok
  show "fst (run_glide_finetune_epoch a step dl) =
           [MakeDirs (checkpoints_dir a), NewTrainer (options_use_fp16 a), ZeroGrad]
           @ concat (map (\<lambda>x. fst (loop_body a step x)) (enumerate 0 dl))
           @ Print ''Finished training, saving final checkpoint''
             # save_model (checkpoints_dir a) (length dl - 1)"
    by (simp add: epoch_events)
  from for_each_ok [OF ok] show "\<forall>x\<in>set (enumerate 0 dl). snd (loop_body a step x) = Inr ()"
    by simp
  show "dl \<noteq> []" by (rule ne)
qed

lemma wandb_logs_concat: "wandb_logs (concat xss) = concat (map wandb_logs xss)"
  by (induction xss) (simp_all add: wandb_logs_append)

lemma checkpoint_writes_concat: "checkpoint_writes (concat xss) = concat (map checkpoint_writes xss)"
  by (induction xss) (simp_all add: checkpoint_writes_append)

lemma iterations_concat: "iterations (concat xss) = concat (map iterations xss)"
  by (induction xss) (simp_all add: iterations_append)

lemma concat_map_singleton: "concat (map (\<lambda>x. [f x]) xs) = map f xs"
  by (induction xs) simp_all

lemma concat_map_if: "concat (map (\<lambda>x. if P x then [f x] else []) xs) = map f (filter P xs)"
  by (induction xs) simp_all

lemma epoch_wandb_logs:
  assumes "snd (run_glide_finetune_epoch a step dl) = Inr u"
  shows "wandb_logs (fst (run_glide_finetune_epoch a step dl)) =
           map (\<lambda>x. hd (wandb_logs (fst (loop_body a step x)))) (enumerate 0 dl)"
proof -
  have single: "wandb_logs (fst (loop_body a step x)) = [hd (wandb_logs (fst (loop_body a step x)))]"
    if "x \<in> set (enumerate 0 dl)" for x
  proof -
    obtain i b where x: "x = (i, b)" by (cases x)
    from that epoch_ok_events(2) [OF assms] have "snd (loop_body a step (i, b)) = Inr ()"
      by (simp add: x)
    from loop_body_logs [OF this] show ?thesis by (auto simp: x)
  qed
  have "wandb_logs (fst (run_glide_finetune_epoch a step dl)) =
      concat (map (\<lambda>x. wandb_logs (fst (loop_body a step x))) (enumerate 0 dl))"
    by (simp add: epoch_ok_events(1) [OF assms] wandb_logs_append wandb_logs_concat comp_def
        save_model_def)
  also have "\<dots> = concat (map (\<lambda>x. [hd (wandb_logs (fst (loop_body a step x)))]) (enumerate 0 dl))"
    by (rule arg_cong [where f = concat], rule map_cong [OF refl]) (rule single)
  finally show ?thesis by (simp add: concat_map_singleton)
qed

text \<open>
  Claim C5, as amended. In an epoch that completes, the tracker's log call is made
  exactly once per iteration, also when the record is empty, and the loss of the
  iteration is in the record only on the iterations selected by the modulo 10 gate of
  line 84. The theorem states the gate as the code has it: \<^verbatim>\<open>if train_idx % 10:\<close> selects
  the indices that are not multiples of 10 (the gates of lines 89 and 110 compare with
  \<^verbatim>\<open>== 0\<close> and select the multiples), and the record is empty exactly when the index is
  a multiple of 10 and no sample is taken at that iteration.
\<close>

theorem wandb_log_once_per_iteration:
  assumes "snd (run_glide_finetune_epoch a step dataloader) = Inr ()"
  shows "length (wandb_logs (fst (run_glide_finetune_epoch a step dataloader))) = length dataloader \<and>
     (\<forall>i<length dataloader. \<exists>l. step i (dataloader ! i) = Inr l \<and>
        map_of (wandb_logs (fst (run_glide_finetune_epoch a step dataloader)) ! i) ''loss'' =
          (if i mod 10 = 0 then None else Some (LFloat l)) \<and>
        (wandb_logs (fst (run_glide_finetune_epoch a step dataloader)) ! i = [] \<longleftrightarrow>
           i mod 10 = 0 \<and> (i = 0 \<or> int i mod log_frequency a \<noteq> 0)))"
proof (intro conjI allI impI)
  note logs = epoch_wandb_logs [OF assms]
  show "length (wandb_logs (fst (run_glide_finetune_epoch a step dataloader))) = length dataloader"
    by (simp add: logs)
  fix i assume i: "i < length dataloader"
  then have "(i, dataloader ! i) \<in> set (enumerate 0 dataloader)"
    by (auto simp: in_set_enumerate_eq)
  with epoch_ok_events(2) [OF assms] have "snd (loop_body a step (i, dataloader ! i)) = Inr ()"
    by blast
  from loop_body_logs [OF this] i
  show "\<exists>l. step i (dataloader ! i) = Inr l \<and>
        map_of (wandb_logs (fst (run_glide_finetune_epoch a step dataloader)) ! i) ''loss'' =
          (if i mod 10 = 0 then None else Some (LFloat l)) \<and>
        (wandb_logs (fst (run_glide_finetune_epoch a step dataloader)) ! i = [] \<longleftrightarrow>
           i mod 10 = 0 \<and> (i = 0 \<or> int i mod log_frequency a \<noteq> 0))"
    by (auto simp: logs nth_enumerate_eq)
qed

lemmas eval_defs = run_glide_finetune_epoch_def loop_body_def bind_io_def emit_def lift_def
  log_loss_def sample_from_model_def checkpoint_if_due_def wandb_log_def return_def raise_def
  save_model_def checkpoint_path_def os_path_join_def enumerate_eq_zip upt_rec

lemma ex_epoch_args_simps:
  "log_frequency ex_epoch_args = 100" "wandb_run ex_epoch_args = Some ''glide_finetune''"
  "checkpoints_dir ex_epoch_args = ''./finetune_checkpoints''"
  "options_use_fp16 ex_epoch_args = False" "optimizer ex_epoch_args = ex_optimizer"
  by (simp_all add: ex_epoch_args_def epoch_args_of_def ex_run_args_def)

lemma str_nat_digits: "str_nat 0 = ''0''" "str_nat (Suc 0) = ''1''" "str_nat 2 = ''2''"
  by (simp_all add: str_nat.simps digit_char_def)

lemma ex_epoch_one:
  "run_glide_finetune_epoch ex_epoch_args ex_step [[10]] =
     ([MakeDirs ''./finetune_checkpoints'', NewTrainer False, ZeroGrad, Iter 0,
       Backward (1 / 2), Optimize ex_optimizer, ZeroGrad, WandbLog [],
       Print ''Finished training, saving final checkpoint'',
       TorchSave ''./finetune_checkpoints/glide-ft-0.pt'',
       Print ''Saved checkpoint 0 to ./finetune_checkpoints/glide-ft-0.pt''],
      Inr ())"
  by (simp add: eval_defs ex_epoch_args_simps ex_step_def str_nat_digits)

lemma ex_epoch_two:
  "run_glide_finetune_epoch ex_epoch_args ex_step [[10], [11]] =
     ([MakeDirs ''./finetune_checkpoints'', NewTrainer False, ZeroGrad,
       Iter 0, Backward (1 / 2), Optimize ex_optimizer, ZeroGrad, WandbLog [],
       Iter 1, Backward (1 / 3), Optimize ex_optimizer, ZeroGrad, TqdmWrite (1 / 3),
       WandbLog [(''iter'', LInt 1), (''loss'', LFloat (1 / 3))],
       Print ''Finished training, saving final checkpoint'',
       TorchSave ''./finetune_checkpoints/glide-ft-1.pt'',
       Print ''Saved checkpoint 1 to ./finetune_checkpoints/glide-ft-1.pt''],
      Inr ())"
  by (simp add: eval_defs ex_epoch_args_simps ex_step_def str_nat_digits)

theorem wandb_log_once_per_iteration_witness:
  "snd (run_glide_finetune_epoch ex_epoch_args ex_step [[10], [11]]) = Inr () \<and>
   length (wandb_logs (fst (run_glide_finetune_epoch ex_epoch_args ex_step [[10], [11]]))) = 2 \<and>
   map_of (wandb_logs (fst (run_glide_finetune_epoch ex_epoch_args ex_step [[10], [11]])) ! 1) ''loss''
     = Some (LFloat (1 / 3)) \<and>
   wandb_logs (fst (run_glide_finetune_epoch ex_epoch_args ex_step [[10], [11]])) ! 0 = []"
proof -
  have ok: "snd (run_glide_finetune_epoch ex_epoch_args ex_step [[10], [11]]) = Inr ()"
    by (simp add: ex_epoch_two)
  from wandb_log_once_per_iteration [OF ok] ok show ?thesis
    by (simp add: ex_step_def ex_epoch_args_simps)
qed

text \<open>
  The claim as worded fails at the first iteration: the loss one half of iteration 0 is
  not logged, the record passed to the tracker is empty.
\<close>

theorem wandb_log_once_per_iteration_counterexample:
  "snd (run_glide_finetune_epoch ex_epoch_args ex_step [[10]]) = Inr () \<and>
   ex_step 0 [10] = Inr (1 / 2) \<and>
   wandb_logs (fst (run_glide_finetune_epoch ex_epoch_args ex_step [[10]])) = [[]]"
  by (simp add: ex_epoch_one ex_step_def)

text \<open>
  Claim C3. In every epoch the gradient-related calls are: one zeroing before the loop
  and then, for each batch that reaches its backward pass, the backward pass, one
  optimizer step and a zeroing right after it. So each batch gets exactly one optimizer
  step, taken with the optimizer the epoch was given; the gradients are zero when a batch
  starts (the zeroing is the last gradient call before the backward pass of the batch)
  and are zeroed immediately after each optimizer step; each step therefore applies the
  gradient of its own batch only, and nothing is left in the buffers at the end. When the
  epoch completes, the batches that got their step are all batches of the loader, in
  order. This holds from any state of the gradient buffers at the start of the epoch.
\<close>

theorem one_optimizer_step_per_batch:
  "\<exists>ls. length ls \<le> length dataloader \<and>
     gradient_events (fst (run_glide_finetune_epoch a step dataloader)) =
       ZeroGrad # concat (map (\<lambda>l. [Backward l, Optimize (optimizer a), ZeroGrad]) ls) \<and>
     optimizer_steps (fst (run_glide_finetune_epoch a step dataloader)) =
       replicate (length ls) (optimizer a) \<and>
     applied (trainer_run g (fst (run_glide_finetune_epoch a step dataloader))) =
       applied g @ map (\<lambda>l. [l]) ls \<and>
     pending (trainer_run g (fst (run_glide_finetune_epoch a step dataloader))) = [] \<and>
     (snd (run_glide_finetune_epoch a step dataloader) = Inr () \<longrightarrow>
        map Inr ls = map (\<lambda>(i, b). step i b) (enumerate 0 dataloader))"
  by (rule epoch_gradient_summary)

theorem one_optimizer_step_per_batch_witness:
  "snd (run_glide_finetune_epoch ex_epoch_args ex_step [[10], [11]]) = Inr () \<and>
   gradient_events (fst (run_glide_finetune_epoch ex_epoch_args ex_step [[10], [11]])) =
     [ZeroGrad, Backward (1 / 2), Optimize ex_optimizer, ZeroGrad, Backward (1 / 3), Optimize ex_optimizer, ZeroGrad] \<and>
   optimizer_steps (fst (run_glide_finetune_epoch ex_epoch_args ex_step [[10], [11]])) =
     [ex_optimizer, ex_optimizer] \<and>
   applied (trainer_run \<lparr>pending = [7], applied = []\<rparr>
              (fst (run_glide_finetune_epoch ex_epoch_args ex_step [[10], [11]]))) =
     [[1 / 2], [1 / 3]]"
proof -
  have ok: "snd (run_glide_finetune_epoch ex_epoch_args ex_step [[10], [11]]) = Inr ()"
    by (simp add: ex_epoch_two)
  from one_optimizer_step_per_batch [of "[[10], [11]]" ex_epoch_args ex_step
      "\<lparr>pending = [7], applied = []\<rparr>"]
  obtain ls where ls: "gradient_events (fst (run_glide_finetune_epoch ex_epoch_args ex_step [[10], [11]])) =
       ZeroGrad # concat (map (\<lambda>l. [Backward l, Optimize (optimizer ex_epoch_args), ZeroGrad]) ls)"
     "optimizer_steps (fst (run_glide_finetune_epoch ex_epoch_args ex_step [[10], [11]])) =
        replicate (length ls) (optimizer ex_epoch_args)"
     "applied (trainer_run \<lparr>pending = [7], applied = []\<rparr>
         (fst (run_glide_finetune_epoch ex_epoch_args ex_step [[10], [11]]))) = map (\<lambda>l. [l]) ls"
     "snd (run_glide_finetune_epoch ex_epoch_args ex_step [[10], [11]]) = Inr () \<longrightarrow>
        map Inr ls = map (\<lambda>(i, b). ex_step i b) (enumerate 0 [[10], [11]])"
    by (elim exE conjE) simp
  from ls(4) ok have "map Inr ls = [Inr (1 / 2) :: error + real, Inr (1 / 3)]"
    by (simp add: ex_step_def enumerate_eq_zip upt_rec)
  then have "ls = [1 / 2, 1 / 3]"
    by (auto simp: map_eq_Cons_conv)
  with ls ok show ?thesis by (simp add: ex_epoch_args_simps numeral_2_eq_2)
qed

text \<open>The epoch loop over the training step itself, on one batch.\<close>

lemma ex_epoch_with_train_step:
  "run_glide_finetune_epoch ex_epoch_args
     (train_step_outcome (\<lambda>i. ex_unet4) ex_diffusion (\<lambda>i. ex_rnd) (\<lambda>i. ex_gauss)) [ex_batch] =
     ([MakeDirs ''./finetune_checkpoints'', NewTrainer False, ZeroGrad, Iter 0,
       Backward 5, Optimize ex_optimizer, ZeroGrad, WandbLog [],
       Print ''Finished training, saving final checkpoint'',
       TorchSave ''./finetune_checkpoints/glide-ft-0.pt'',
       Print ''Saved checkpoint 0 to ./finetune_checkpoints/glide-ft-0.pt''],
      Inr ())"
proof -
  have "train_step_outcome (\<lambda>i. ex_unet4) ex_diffusion (\<lambda>i. ex_rnd) (\<lambda>i. ex_gauss) 0 ex_batch = Inr 5"
    using ex_train_step_unet4 by (simp add: train_step_outcome_def)
  then show ?thesis
    by (simp add: eval_defs ex_epoch_args_simps str_nat_digits)
qed

section \<open>Properties of a run\<close>

subsection \<open>The loader and the driver\<close>

lemma length_permute: "length xs = k \<Longrightarrow> length (permute k rnd xs) = k"
proof (induction k arbitrary: xs)
  case 0
  show ?case by simp
next
  case (Suc k)
  then have ne: "xs \<noteq> []" by auto
  then have "rnd k mod length xs < length xs" by simp
  then have "length (take (rnd k mod length xs) xs @ drop (Suc (rnd k mod length xs)) xs) = k"
    using Suc.prems by simp
  from Suc.IH [OF this] ne show ?case by (simp add: Let_def)
qed

lemma length_batches: "length (batches bs rnd items) = (length items + bs - 1) div bs"
  by (simp add: batches_def chunks_def shuffle_def length_permute)

lemma bind_io_raise: "bind_io (raise e) f = ([], Inl e)"
  by (simp add: bind_io_def raise_def)

lemma bind_io_return: "bind_io (return x) f = f x"
  by (simp add: bind_io_def return_def split: prod.splits)

lemma run_empty:
  assumes "run_dataset a env = []"
  shows "run_glide_finetune a env = (run_prefix a env, Inl (AssertionError ''Dataset is empty''))"
  using assms
  by (simp add: run_glide_finetune_def run_dataset_def run_prefix_def Let_def bind_io_emit
      bind_io_raise)

lemma run_nonempty:
  assumes "run_dataset a env \<noteq> []"
  shows "\<exists>rest. fst (run_glide_finetune a env) =
     run_prefix a env
     @ [Print (''Dataset contains '' @ str_nat (length (run_dataset a env)) @ '' images'')] @ rest"
  using assms
  by (simp add: run_glide_finetune_def run_dataset_def run_prefix_def Let_def bind_io_emit
      bind_io_return)

lemma run_ok:
  assumes "snd (run_glide_finetune a env) = Inr u"
  shows "\<exists>opt. make_optimizer (use_sgd a) (learning_rate a) (parameters env) = Inr opt \<and>
     run_dataset a env \<noteq> [] \<and> 0 < batch_size a \<and>
     snd (for_each (epoch_events a env opt) [0..<nat (num_epochs a)]) = Inr () \<and>
     fst (run_glide_finetune a env) =
       run_prefix a env
       @ [Print (''Dataset contains '' @ str_nat (length (run_dataset a env)) @ '' images''),
          NewOptimizer opt, MakeDirs ''./outputs'', ModelTo (device a), ModelTrain, ModelZeroGrad]
       @ fst (for_each (epoch_events a env opt) [0..<nat (num_epochs a)])"
proof -
  from assms have ne: "run_dataset a env \<noteq> []"
    by (auto simp: run_empty)
  from assms ne have bs: "0 < batch_size a"
    by (auto simp: run_glide_finetune_def run_dataset_def Let_def bind_io_emit bind_io_return
        snd_bind_io_Inr lift_def new_data_loader_def split: if_splits)
  from assms ne bs obtain opt where
    opt: "make_optimizer (use_sgd a) (learning_rate a) (parameters env) = Inr opt"
    by (auto simp: run_glide_finetune_def run_dataset_def Let_def bind_io_emit bind_io_return
        snd_bind_io_Inr lift_def new_data_loader_def split: if_splits)
  from assms ne bs opt
  have "snd (for_each (epoch_events a env opt) [0..<nat (num_epochs a)]) = Inr ()"
    by (auto simp: run_glide_finetune_def run_dataset_def Let_def bind_io_emit bind_io_return
        snd_bind_io_Inr lift_def new_data_loader_def split: if_splits)
  moreover from ne bs opt have "fst (run_glide_finetune a env) =
       run_prefix a env
       @ [Print (''Dataset contains '' @ str_nat (length (run_dataset a env)) @ '' images''),
          NewOptimizer opt, MakeDirs ''./outputs'', ModelTo (device a), ModelTrain, ModelZeroGrad]
       @ fst (for_each (epoch_events a env opt) [0..<nat (num_epochs a)])"
    by (simp add: run_glide_finetune_def run_dataset_def run_prefix_def Let_def bind_io_emit
        bind_io_return bind_io_lift_Inr new_data_loader_def)
  ultimately show ?thesis using ne bs opt by blast
qed

subsection \<open>Checkpoints and iterations of a run\<close>

lemma concat_map_fst_enumerate:
  "concat (map (\<lambda>x. g (fst x)) (enumerate 0 xs)) = concat (map g [0..<length xs])"
proof -
  have "map (\<lambda>x. g (fst x)) (enumerate 0 xs) = map g (map fst (enumerate 0 xs))"
    by (simp only: map_map comp_def)
  also have "\<dots> = map g [0..<length xs]"
    by (simp only: map_fst_enumerate) simp
  finally show ?thesis by simp
qed

lemma epoch_checkpoint_writes:
  assumes "snd (run_glide_finetune_epoch a step dl) = Inr u"
  shows "checkpoint_writes (fst (run_glide_finetune_epoch a step dl)) =
     scheduled_checkpoints (checkpoints_dir a) (length dl)
     @ [checkpoint_path (checkpoints_dir a) (length dl - 1)]"
proof -
  have body: "checkpoint_writes (fst (loop_body a step x)) =
      (if fst x mod 1000 = 0 \<and> 0 < fst x then [checkpoint_path (checkpoints_dir a) (fst x)] else [])"
    if "x \<in> set (enumerate 0 dl)" for x
  proof -
    obtain i b where x: "x = (i, b)" by (cases x)
    from that epoch_ok_events(2) [OF assms] have "snd (loop_body a step (i, b)) = Inr ()"
      by (simp add: x)
    from loop_body_checkpoints [OF this] show ?thesis by (simp add: x)
  qed
  have "concat (map (\<lambda>x. checkpoint_writes (fst (loop_body a step x))) (enumerate 0 dl)) =
      concat (map (\<lambda>x. if fst x mod 1000 = 0 \<and> 0 < fst x
                         then [checkpoint_path (checkpoints_dir a) (fst x)] else [])
                (enumerate 0 dl))"
    by (rule arg_cong [where f = concat], rule map_cong [OF refl]) (rule body)
  also have "\<dots> = scheduled_checkpoints (checkpoints_dir a) (length dl)"
    unfolding scheduled_checkpoints_def
    by (subst concat_map_fst_enumerate
        [where g = "\<lambda>i. if i mod 1000 = 0 \<and> 0 < i then [checkpoint_path (checkpoints_dir a) i] else []"])
      (rule concat_map_if)
  finally show ?thesis
    by (simp add: epoch_ok_events(1) [OF assms] checkpoint_writes_append checkpoint_writes_concat
        comp_def save_model_def)
qed

lemma epoch_iterations:
  assumes "snd (run_glide_finetune_epoch a step dl) = Inr u"
  shows "iterations (fst (run_glide_finetune_epoch a step dl)) = [0..<length dl]"
proof -
  have "concat (map (\<lambda>x. iterations (fst (loop_body a step x))) (enumerate 0 dl)) =
      concat (map (\<lambda>x. [fst x]) (enumerate 0 dl))"
    by (rule arg_cong [where f = concat], rule map_cong [OF refl])
      (auto simp: loop_body_iterations)
  also have "\<dots> = [0..<length dl]"
    by (simp add: concat_map_singleton map_fst_enumerate)
  finally show ?thesis
    by (simp add: epoch_ok_events(1) [OF assms] iterations_append iterations_concat
        comp_def save_model_def)
qed

text \<open>One epoch as the driver runs it.\<close>

lemma epoch_events_fst:
  "fst (epoch_events a env opt e) =
     Print (''Starting epoch '' @ str_nat e)
     # fst (run_glide_finetune_epoch (epoch_args_of a (run_checkpoints_dir a env) opt)
              (train_step_at env e)
              (batches (nat (batch_size a)) (shuffle_rnd env e) (run_dataset a env)))"
  by (simp add: epoch_events_def bind_io_emit run_checkpoints_dir_def run_dataset_def)

lemma epoch_events_snd:
  "snd (epoch_events a env opt e) =
     snd (run_glide_finetune_epoch (epoch_args_of a (run_checkpoints_dir a env) opt)
              (train_step_at env e)
              (batches (nat (batch_size a)) (shuffle_rnd env e) (run_dataset a env)))"
  by (simp add: epoch_events_def bind_io_emit run_checkpoints_dir_def run_dataset_def)

lemma epoch_args_of_simps:
  "checkpoints_dir (epoch_args_of a dir opt) = dir" "optimizer (epoch_args_of a dir opt) = opt"
  by (simp_all add: epoch_args_of_def)

lemma length_run_batches:
  "length (batches (nat (batch_size a)) (shuffle_rnd env e) (run_dataset a env)) =
     batches_per_epoch a env"
  by (simp add: length_batches batches_per_epoch_def)

lemma run_ok_epochs:
  assumes "snd (run_glide_finetune a env) = Inr u"
  obtains opt where "make_optimizer (use_sgd a) (learning_rate a) (parameters env) = Inr opt"
    and "fst (run_glide_finetune a env) =
       run_prefix a env
       @ [Print (''Dataset contains '' @ str_nat (length (run_dataset a env)) @ '' images''),
          NewOptimizer opt, MakeDirs ''./outputs'', ModelTo (device a), ModelTrain, ModelZeroGrad]
       @ concat (map (\<lambda>e. fst (epoch_events a env opt e)) [0..<nat (num_epochs a)])"
    and "\<forall>e<nat (num_epochs a). snd (epoch_events a env opt e) = Inr ()"
    and "run_dataset a env \<noteq> []" and "0 < batch_size a"
proof -
  from run_ok [OF assms] obtain opt where
    opt: "make_optimizer (use_sgd a) (learning_rate a) (parameters env) = Inr opt"
    and ne: "run_dataset a env \<noteq> []" and bs: "0 < batch_size a"
    and ok: "snd (for_each (epoch_events a env opt) [0..<nat (num_epochs a)]) = Inr ()"
    and ev: "fst (run_glide_finetune a env) =
       run_prefix a env
       @ [Print (''Dataset contains '' @ str_nat (length (run_dataset a env)) @ '' images''),
          NewOptimizer opt, MakeDirs ''./outputs'', ModelTo (device a), ModelTrain, ModelZeroGrad]
       @ fst (for_each (epoch_events a env opt) [0..<nat (num_epochs a)])"
    by blast
  from for_each_ok [OF ok] have "\<forall>e<nat (num_epochs a). snd (epoch_events a env opt e) = Inr ()"
    and "fst (for_each (epoch_events a env opt) [0..<nat (num_epochs a)]) =
      concat (map (\<lambda>e. fst (epoch_events a env opt e)) [0..<nat (num_epochs a)])"
    by simp_all
  with opt ev ne bs that show thesis by simp
qed

lemma checkpoint_writes_run_prefix: "checkpoint_writes (run_prefix a env) = []"
  by (simp add: run_prefix_def)

lemma iterations_run_prefix: "iterations (run_prefix a env) = []"
  by (simp add: run_prefix_def)

lemma concat_map_const_upt: "concat (map (\<lambda>e. xs) [0..<n]) = concat (replicate n xs)"
  by (simp add: map_replicate_const)

lemma run_checkpoint_writes:
  assumes "snd (run_glide_finetune a env) = Inr u"
  shows "checkpoint_writes (fst (run_glide_finetune a env)) =
     concat (replicate (nat (num_epochs a))
       (scheduled_checkpoints (run_checkpoints_dir a env) (batches_per_epoch a env)
        @ [checkpoint_path (run_checkpoints_dir a env) (batches_per_epoch a env - 1)]))"
proof -
  from assms obtain opt where
    ev: "fst (run_glide_finetune a env) =
       run_prefix a env
       @ [Print (''Dataset contains '' @ str_nat (length (run_dataset a env)) @ '' images''),
          NewOptimizer opt, MakeDirs ''./outputs'', ModelTo (device a), ModelTrain, ModelZeroGrad]
       @ concat (map (\<lambda>e. fst (epoch_events a env opt e)) [0..<nat (num_epochs a)])"
    and ok: "\<forall>e<nat (num_epochs a). snd (epoch_events a env opt e) = Inr ()"
    by (rule run_ok_epochs)
  have ep: "checkpoint_writes (fst (epoch_events a env opt e)) =
      scheduled_checkpoints (run_checkpoints_dir a env) (batches_per_epoch a env)
        @ [checkpoint_path (run_checkpoints_dir a env) (batches_per_epoch a env - 1)]"
    if "e \<in> set [0..<nat (num_epochs a)]" for e
  proof -
    from that ok have "snd (epoch_events a env opt e) = Inr ()" by simp
    then have "snd (run_glide_finetune_epoch (epoch_args_of a (run_checkpoints_dir a env) opt)
              (train_step_at env e)
              (batches (nat (batch_size a)) (shuffle_rnd env e) (run_dataset a env))) = Inr ()"
      by (simp add: epoch_events_snd)
    from epoch_checkpoint_writes [OF this] show ?thesis
      by (simp add: epoch_events_fst epoch_args_of_simps length_run_batches)
  qed
  have "concat (map (\<lambda>e. checkpoint_writes (fst (epoch_events a env opt e))) [0..<nat (num_epochs a)]) =
      concat (map (\<lambda>e. scheduled_checkpoints (run_checkpoints_dir a env) (batches_per_epoch a env)
        @ [checkpoint_path (run_checkpoints_dir a env) (batches_per_epoch a env - 1)])
        [0..<nat (num_epochs a)])"
    by (rule arg_cong [where f = concat], rule map_cong [OF refl]) (rule ep)
  then show ?thesis
    by (simp add: ev checkpoint_writes_append checkpoint_writes_concat comp_def
        checkpoint_writes_run_prefix concat_map_const_upt)
qed

lemma run_iterations:
  assumes "snd (run_glide_finetune a env) = Inr u"
  shows "iterations (fst (run_glide_finetune a env)) =
     concat (replicate (nat (num_epochs a)) [0..<batches_per_epoch a env])"
proof -
  from assms obtain opt where
    ev: "fst (run_glide_finetune a env) =
       run_prefix a env
       @ [Print (''Dataset contains '' @ str_nat (length (run_dataset a env)) @ '' images''),
          NewOptimizer opt, MakeDirs ''./outputs'', ModelTo (device a), ModelTrain, ModelZeroGrad]
       @ concat (map (\<lambda>e. fst (epoch_events a env opt e)) [0..<nat (num_epochs a)])"
    and ok: "\<forall>e<nat (num_epochs a). snd (epoch_events a env opt e) = Inr ()"
    by (rule run_ok_epochs)
  have ep: "iterations (fst (epoch_events a env opt e)) = [0..<batches_per_epoch a env]"
    if "e \<in> set [0..<nat (num_epochs a)]" for e
  proof -
    from that ok have "snd (epoch_events a env opt e) = Inr ()" by simp
    then have "snd (run_glide_finetune_epoch (epoch_args_of a (run_checkpoints_dir a env) opt)
              (train_step_at env e)
              (batches (nat (batch_size a)) (shuffle_rnd env e) (run_dataset a env))) = Inr ()"
      by (simp add: epoch_events_snd)
    from epoch_iterations [OF this] show ?thesis
      by (simp add: epoch_events_fst length_run_batches)
  qed
  have "concat (map (\<lambda>e. iterations (fst (epoch_events a env opt e))) [0..<nat (num_epochs a)]) =
      concat (map (\<lambda>e. [0..<batches_per_epoch a env]) [0..<nat (num_epochs a)])"
    by (rule arg_cong [where f = concat], rule map_cong [OF refl]) (rule ep)
  then show ?thesis
    by (simp add: ev iterations_append iterations_concat comp_def
        iterations_run_prefix concat_map_const_upt)
qed

subsection \<open>The optimizer, and a run evaluated\<close>

lemma optimizer_steps_append: "optimizer_steps (xs @ ys) = optimizer_steps xs @ optimizer_steps ys"
  by (induction xs rule: optimizer_steps.induct) auto

lemma optimizer_steps_concat: "optimizer_steps (concat xss) = concat (map optimizer_steps xss)"
  by (induction xss) (simp_all add: optimizer_steps_append)

lemma concat_replicate_replicate: "concat (replicate n (replicate m x)) = replicate (n * m) x"
  by (induction n) (simp_all add: replicate_add)

lemma epoch_optimizer_steps:
  assumes "snd (run_glide_finetune_epoch a step dl) = Inr ()"
  shows "optimizer_steps (fst (run_glide_finetune_epoch a step dl)) = replicate (length dl) (optimizer a)"
proof -
  from epoch_gradient_summary [of dl a step "\<lparr>pending = [], applied = []\<rparr>"] assms
  obtain ls where "optimizer_steps (fst (run_glide_finetune_epoch a step dl)) =
       replicate (length ls) (optimizer a)"
    and "map Inr ls = (map (\<lambda>(i, b). step i b) (enumerate 0 dl) :: (error + real) list)"
    by blast
  moreover from this(2) have "length ls = length dl"
    by (metis length_map length_enumerate)
  ultimately show ?thesis by simp
qed

lemma run_optimizer_steps:
  assumes "snd (run_glide_finetune a env) = Inr ()"
  shows "\<exists>opt. make_optimizer (use_sgd a) (learning_rate a) (parameters env) = Inr opt \<and>
     NewOptimizer opt \<in> set (fst (run_glide_finetune a env)) \<and>
     optimizer_steps (fst (run_glide_finetune a env)) =
       replicate (nat (num_epochs a) * batches_per_epoch a env) opt"
proof -
  from assms obtain opt where
    opt: "make_optimizer (use_sgd a) (learning_rate a) (parameters env) = Inr opt"
    and ev: "fst (run_glide_finetune a env) =
       run_prefix a env
       @ [Print (''Dataset contains '' @ str_nat (length (run_dataset a env)) @ '' images''),
          NewOptimizer opt, MakeDirs ''./outputs'', ModelTo (device a), ModelTrain, ModelZeroGrad]
       @ concat (map (\<lambda>e. fst (epoch_events a env opt e)) [0..<nat (num_epochs a)])"
    and ok: "\<forall>e<nat (num_epochs a). snd (epoch_events a env opt e) = Inr ()"
    by (rule run_ok_epochs)
  have ep: "optimizer_steps (fst (epoch_events a env opt e)) = replicate (batches_per_epoch a env) opt"
    if "e \<in> set [0..<nat (num_epochs a)]" for e
  proof -
    from that ok have "snd (epoch_events a env opt e) = Inr ()" by simp
    then have "snd (run_glide_finetune_epoch (epoch_args_of a (run_checkpoints_dir a env) opt)
              (train_step_at env e)
              (batches (nat (batch_size a)) (shuffle_rnd env e) (run_dataset a env))) = Inr ()"
      by (simp add: epoch_events_snd)
    from epoch_optimizer_steps [OF this] show ?thesis
      by (simp add: epoch_events_fst length_run_batches epoch_args_of_simps)
  qed
  have "concat (map (\<lambda>e. optimizer_steps (fst (epoch_events a env opt e))) [0..<nat (num_epochs a)]) =
      concat (map (\<lambda>e. replicate (batches_per_epoch a env) opt) [0..<nat (num_epochs a)])"
    by (rule arg_cong [where f = concat], rule map_cong [OF refl]) (rule ep)
  then have "optimizer_steps (fst (run_glide_finetune a env)) =
       replicate (nat (num_epochs a) * batches_per_epoch a env) opt"
    by (simp add: ev optimizer_steps_append optimizer_steps_concat comp_def run_prefix_def
        concat_map_const_upt concat_replicate_replicate)
  moreover have "NewOptimizer opt \<in> set (fst (run_glide_finetune a env))"
    by (simp add: ev)
  ultimately show ?thesis using opt by blast
qed

lemma make_optimizer_Inr:
  assumes "make_optimizer sgd lr params = Inr opt"
  shows "opt = (if sgd then SGD (filter requires_grad params) lr (9 / 10)
                else AdamW (filter requires_grad params) lr 0)"
  using assms
  by (auto simp: make_optimizer_def th_optim_SGD_def th_optim_AdamW_def split: if_splits)

lemma ex_run_args_simps:
  "checkpoints_dir ex_run_args = ''./finetune_checkpoints''" "data_dir ex_run_args = ''./data''"
  "batch_size ex_run_args = 1" "num_epochs ex_run_args = 2" "use_sgd ex_run_args = False"
  "learning_rate ex_run_args = 1 / 100000" "project_name ex_run_args = ''glide_finetune''"
  "resume_ckpt ex_run_args = ''''" "device ex_run_args = ''cpu''" "log_frequency ex_run_args = 100"
  "use_fp16 ex_run_args = False"
  by (simp_all add: ex_run_args_def)

lemma ex_dataset: "run_dataset ex_run_args ex_env = [10, 11]"
  by (simp add: run_dataset_def ex_env_def)

lemma ex_empty_dataset: "run_dataset ex_run_args ex_empty_env = []"
  by (simp add: run_dataset_def ex_empty_env_def ex_env_def)

lemma ex_batches: "batches (Suc 0) (shuffle_rnd ex_env e) [10, 11 :: nat] = [[10], [11]]"
  by (simp add: batches_def chunks_def shuffle_def ex_env_def upt_rec numeral_2_eq_2)

lemma ex_epoch_events:
  "epoch_events ex_run_args ex_env ex_optimizer e =
     ([Print (''Starting epoch '' @ str_nat e), MakeDirs ''./finetune_checkpoints'',
       NewTrainer False, ZeroGrad,
       Iter 0, Backward (1 / 2), Optimize ex_optimizer, ZeroGrad, WandbLog [],
       Iter 1, Backward (1 / 3), Optimize ex_optimizer, ZeroGrad, TqdmWrite (1 / 3),
       WandbLog [(''iter'', LInt 1), (''loss'', LFloat (1 / 3))],
       Print ''Finished training, saving final checkpoint'',
       TorchSave ''./finetune_checkpoints/glide-ft-1.pt'',
       Print ''Saved checkpoint 1 to ./finetune_checkpoints/glide-ft-1.pt''],
      Inr ())"
proof -
  have args: "epoch_args_of ex_run_args ''./finetune_checkpoints'' ex_optimizer = ex_epoch_args"
    by (simp add: ex_epoch_args_def)
  have step: "train_step_at ex_env e = ex_step"
    by (rule ext)+ (simp add: ex_env_def ex_step_def)
  show ?thesis
    by (simp add: epoch_events_def ex_run_args_simps expand_home_def ex_batches args step
        ex_epoch_two bind_io_emit ex_env_def [THEN arg_cong, of expanduser]
        ex_env_def [THEN arg_cong, of text_image_dataset])
qed

lemma ex_run:
  "run_glide_finetune ex_run_args ex_env =
     ([MakeDirs ''./finetune_checkpoints'', WandbSetup ''glide_finetune'',
       Print ''Wandb setup.'', LoadBaseModel [],
       Print ''Dataset contains 2 images'',
       NewOptimizer ex_optimizer,
       MakeDirs ''./outputs'', ModelTo ''cpu'', ModelTrain, ModelZeroGrad,
       Print ''Starting epoch 0'', MakeDirs ''./finetune_checkpoints'',
       NewTrainer False, ZeroGrad,
       Iter 0, Backward (1 / 2), Optimize ex_optimizer, ZeroGrad, WandbLog [],
       Iter 1, Backward (1 / 3), Optimize ex_optimizer, ZeroGrad, TqdmWrite (1 / 3),
       WandbLog [(''iter'', LInt 1), (''loss'', LFloat (1 / 3))],
       Print ''Finished training, saving final checkpoint'',
       TorchSave ''./finetune_checkpoints/glide-ft-1.pt'',
       Print ''Saved checkpoint 1 to ./finetune_checkpoints/glide-ft-1.pt'',
       Print ''Starting epoch 1'', MakeDirs ''./finetune_checkpoints'',
       NewTrainer False, ZeroGrad,
       Iter 0, Backward (1 / 2), Optimize ex_optimizer, ZeroGrad, WandbLog [],
       Iter 1, Backward (1 / 3), Optimize ex_optimizer, ZeroGrad, TqdmWrite (1 / 3),
       WandbLog [(''iter'', LInt 1), (''loss'', LFloat (1 / 3))],
       Print ''Finished training, saving final checkpoint'',
       TorchSave ''./finetune_checkpoints/glide-ft-1.pt'',
       Print ''Saved checkpoint 1 to ./finetune_checkpoints/glide-ft-1.pt''],
      Inr ())"
proof -
  have opt: "make_optimizer False (1 / 100000) (parameters ex_env) = Inr ex_optimizer"
    by (simp add: make_optimizer_def th_optim_AdamW_def ex_env_def ex_optimizer_def)
  have ds: "text_image_dataset ex_env (expand_home (expanduser ex_env) ''./data'') = [10, 11]"
    by (simp add: ex_env_def)
  have ck: "expand_home (expanduser ex_env) ''./finetune_checkpoints'' = ''./finetune_checkpoints''"
    by (simp add: expand_home_def)
  show ?thesis
    by (simp add: run_glide_finetune_def Let_def ex_run_args_simps ds ck bind_io_emit
        bind_io_return bind_io_lift_Inr new_data_loader_def opt ex_epoch_events
        upt_rec numeral_2_eq_2 str_nat_digits str_nat.simps [of "Suc (Suc 0)"] digit_char_def)
qed

text \<open>
  An epoch of 1001 batches: one scheduled checkpoint, at index 1000, which is also the
  index of the final checkpoint of the epoch.
\<close>

lemma scheduled_checkpoints_1001:
  "scheduled_checkpoints dir 1001 = [checkpoint_path dir 1000]"
proof -
  have "[0..<1001] = [0..<1000] @ [1000::nat]"
    using upt_Suc_append [of 0 1000] by simp
  moreover have "filter (\<lambda>k. k mod 1000 = 0 \<and> 0 < k) [0..<1000] = []"
    by (auto simp: filter_empty_conv)
  ultimately show ?thesis
    by (simp add: scheduled_checkpoints_def)
qed

lemma checkpoint_path_1000:
  "checkpoint_path ''./finetune_checkpoints'' 1000 = ''./finetune_checkpoints/glide-ft-1000.pt''"
  by (simp add: checkpoint_path_def os_path_join_def str_nat.simps [of 1000] str_nat.simps [of 100]
      str_nat.simps [of 10] str_nat_digits digit_char_def)

subsection \<open>The claims about a run\<close>

lemma ex_run_ok: "snd (run_glide_finetune ex_run_args ex_env) = Inr ()"
  by (simp add: ex_run)

lemma ex_batches_per_epoch: "batches_per_epoch ex_run_args ex_env = 2"
  by (simp add: batches_per_epoch_def ex_dataset ex_run_args_simps)

lemma ex_checkpoints_dir: "run_checkpoints_dir ex_run_args ex_env = ''./finetune_checkpoints''"
  by (simp add: run_checkpoints_dir_def expand_home_def ex_run_args_simps)

lemma checkpoint_path_plain:
  "dir \<noteq> [] \<Longrightarrow> last dir \<noteq> CHR ''/'' \<Longrightarrow>
     checkpoint_path dir k = dir @ ''/glide-ft-'' @ str_nat k @ ''.pt''"
  by (simp add: checkpoint_path_def os_path_join_def)

text \<open>
  Claim C4, as amended. In a run that completes, every epoch writes a checkpoint to
  \<^verbatim>\<open><checkpoints_dir>/glide-ft-<k>.pt\<close> exactly once for each batch index \<open>k\<close> of the
  epoch that is a positive multiple of 1000, and once more at the end of the epoch for
  the index \<open>L - 1\<close> of its last batch, whether or not that index is a multiple of 1000.
  A run of several epochs repeats these writes in every epoch, under the same names.
\<close>

theorem checkpoints_every_epoch:
  assumes "snd (run_glide_finetune a env) = Inr ()"
  shows "checkpoint_writes (fst (run_glide_finetune a env)) =
     concat (replicate (nat (num_epochs a))
       (scheduled_checkpoints (run_checkpoints_dir a env) (batches_per_epoch a env)
        @ [checkpoint_path (run_checkpoints_dir a env) (batches_per_epoch a env - 1)])) \<and>
     (\<forall>dir k. dir \<noteq> [] \<and> last dir \<noteq> CHR ''/'' \<longrightarrow>
        checkpoint_path dir k = dir @ ''/glide-ft-'' @ str_nat k @ ''.pt'')"
  using run_checkpoint_writes [OF assms] by (simp add: checkpoint_path_plain)

theorem checkpoints_every_epoch_witness:
  "snd (run_glide_finetune ex_run_args ex_env) = Inr () \<and>
   checkpoint_writes (fst (run_glide_finetune ex_run_args ex_env)) =
     concat (replicate 2 (scheduled_checkpoints ''./finetune_checkpoints'' 2
                          @ [checkpoint_path ''./finetune_checkpoints'' 1])) \<and>
   checkpoint_path ''./finetune_checkpoints'' 1 = ''./finetune_checkpoints/glide-ft-1.pt''"
  using checkpoints_every_epoch [OF ex_run_ok] ex_run_ok
  by (simp add: ex_batches_per_epoch ex_checkpoints_dir ex_run_args_simps str_nat_digits)

text \<open>
  The claim as worded fails on a run of two epochs with two batches each: no index is a
  multiple of 1000, and the checkpoint is written twice, once after each epoch, not once
  at the end of the run.
\<close>

theorem checkpoints_every_epoch_counterexample:
  "snd (run_glide_finetune ex_run_args ex_env) = Inr () \<and>
   num_epochs ex_run_args = 2 \<and>
   iterations (fst (run_glide_finetune ex_run_args ex_env)) = [0, 1, 0, 1] \<and>
   checkpoint_writes (fst (run_glide_finetune ex_run_args ex_env)) =
     [''./finetune_checkpoints/glide-ft-1.pt'', ''./finetune_checkpoints/glide-ft-1.pt'']"
  by (simp add: ex_run ex_run_args_simps)

text \<open>
  Claim C9, as amended. The iteration counter \<^verbatim>\<open>train_idx\<close> is bound once per batch and
  increases by one from batch to batch inside an epoch; it starts again at 0 in every
  epoch of a run: over a run of \<open>E\<close> epochs with \<open>L\<close> batches each it takes the values
  \<open>0, ..., L - 1\<close>, \<open>E\<close> times over.
\<close>

theorem iteration_counter_per_epoch:
  assumes "snd (run_glide_finetune a env) = Inr ()"
  shows "iterations (fst (run_glide_finetune a env)) =
     concat (replicate (nat (num_epochs a)) [0..<batches_per_epoch a env])"
  using assms by (rule run_iterations)

theorem iteration_counter_per_epoch_witness:
  "snd (run_glide_finetune ex_run_args ex_env) = Inr () \<and>
   iterations (fst (run_glide_finetune ex_run_args ex_env)) = concat (replicate 2 [0..<2])"
  using iteration_counter_per_epoch [OF ex_run_ok] ex_run_ok
  by (simp add: ex_batches_per_epoch ex_run_args_simps)

text \<open>
  The claim as worded fails on a run of two epochs with two batches each: the counter
  goes 0, 1, 0, 1, which is not increasing.
\<close>

theorem iteration_counter_per_epoch_counterexample:
  "snd (run_glide_finetune ex_run_args ex_env) = Inr () \<and>
   iterations (fst (run_glide_finetune ex_run_args ex_env)) = [0, 1, 0, 1] \<and>
   \<not> sorted (iterations (fst (run_glide_finetune ex_run_args ex_env)))"
  by (simp add: ex_run)

lemma count_list_concat_replicate:
  "n * count_list xs x = count_list (concat (replicate n xs)) x"
  by (induction n) simp_all

lemma digit_char_inject:
  assumes "a < 10" and "b < 10" and "digit_char a = digit_char b"
  shows "a = b"
proof -
  have "distinct ''0123456789''" by simp
  moreover have "a < length ''0123456789''" "b < length ''0123456789''"
    using assms by simp_all
  ultimately show ?thesis
    using assms(3) unfolding digit_char_def by (simp only: nth_eq_iff_index_eq)
qed

lemma str_nat_decimal:
  "str_nat n = (if n < 10 then [''0123456789'' ! n]
                else str_nat (n div 10) @ [''0123456789'' ! (n mod 10)])"
  by (subst str_nat.simps) (simp only: digit_char_def)

lemma str_nat_not_Nil: "str_nat n \<noteq> []"
  by (subst str_nat.simps) simp

lemma str_nat_inject:
  "str_nat m = str_nat n \<Longrightarrow> m = n"
proof (induction m arbitrary: n rule: less_induct)
  case (less m)
  show ?case
  proof (cases "m < 10")
    case m: True
    show ?thesis
    proof (cases "n < 10")
      case True
      with m less.prems have "digit_char m = digit_char n"
        by (simp add: str_nat.simps [of m] str_nat.simps [of n])
      with m True show ?thesis by (rule digit_char_inject)
    next
      case False
      with m less.prems have "[digit_char m] = str_nat (n div 10) @ [digit_char (n mod 10)]"
        by (simp add: str_nat.simps [of m] str_nat.simps [of n])
      then have "str_nat (n div 10) = []" by simp
      then show ?thesis by (simp add: str_nat_not_Nil)
    qed
  next
    case m: False
    show ?thesis
    proof (cases "n < 10")
      case True
      with m less.prems have "str_nat (m div 10) @ [digit_char (m mod 10)] = [digit_char n]"
        by (simp add: str_nat.simps [of m] str_nat.simps [of n])
      then have "str_nat (m div 10) = []" by simp
      then show ?thesis by (simp add: str_nat_not_Nil)
    next
      case False
      with m less.prems have
        eq: "str_nat (m div 10) @ [digit_char (m mod 10)] =
             str_nat (n div 10) @ [digit_char (n mod 10)]"
        by (simp add: str_nat.simps [of m] str_nat.simps [of n])
      then have 1: "str_nat (m div 10) = str_nat (n div 10)"
        and 2: "digit_char (m mod 10) = digit_char (n mod 10)"
        by simp_all
      from m have "m div 10 < m" by simp
      from less.IH [OF this 1] have d: "m div 10 = n div 10" .
      have "m mod 10 < 10" "n mod 10 < 10" by simp_all
      from this 2 have r: "m mod 10 = n mod 10" by (rule digit_char_inject)
      have "m = 10 * (m div 10) + m mod 10" by simp
      also have "\<dots> = 10 * (n div 10) + n mod 10" by (simp only: d r)
      also have "\<dots> = n" by simp
      finally show ?thesis .
    qed
  qed
qed

lemma checkpoint_path_explicit:
  "checkpoint_path dir k =
     (if dir = [] \<or> last dir = CHR ''/'' then dir else dir @ ''/'')
     @ ''glide-ft-'' @ str_nat k @ ''.pt''"
  by (simp add: checkpoint_path_def os_path_join_def)

text \<open>
  Claim C10. In a run that completes, the trace is what the driver does before the first
  epoch, which writes no checkpoint, followed by one trace per epoch; the trace of every
  epoch ends with the final checkpoint of the epoch: the message
  \<^verbatim>\<open>Finished training, saving final checkpoint\<close>, the write of the file
  \<^verbatim>\<open>glide-ft-<L-1>.pt\<close> in the checkpoint directory (joined with one \<^verbatim>\<open>/\<close> unless the
  directory is empty or ends with one), and the message that names it, \<open>L\<close> being the
  number of batches the loader gives in each epoch and \<open>L - 1\<close> the index of the last
  batch. So every epoch writes the same file: it is written at least once per epoch, each
  write replacing what the epoch before left there. The index is printed in decimal, and
  different indices give different names.
\<close>

theorem final_checkpoint_every_epoch:
  assumes "snd (run_glide_finetune a env) = Inr ()"
  shows "(\<exists>start epochs.
     fst (run_glide_finetune a env) = start @ concat epochs \<and>
     checkpoint_writes start = [] \<and> iterations start = [] \<and>
     length epochs = nat (num_epochs a) \<and>
     (\<forall>ep\<in>set epochs. \<exists>body.
        ep = body @
          [Print ''Finished training, saving final checkpoint'',
           TorchSave
             ((if run_checkpoints_dir a env = [] \<or> last (run_checkpoints_dir a env) = CHR ''/''
               then run_checkpoints_dir a env else run_checkpoints_dir a env @ ''/'')
              @ ''glide-ft-'' @ str_nat (batches_per_epoch a env - 1) @ ''.pt''),
           Print (''Saved checkpoint '' @ str_nat (batches_per_epoch a env - 1) @ '' to ''
                  @ run_checkpoints_dir a env @ ''/glide-ft-''
                  @ str_nat (batches_per_epoch a env - 1) @ ''.pt'')] \<and>
        iterations body = [0..<batches_per_epoch a env] \<and> 0 < batches_per_epoch a env) \<and>
     nat (num_epochs a) \<le>
       count_list (checkpoint_writes (fst (run_glide_finetune a env)))
         ((if run_checkpoints_dir a env = [] \<or> last (run_checkpoints_dir a env) = CHR ''/''
           then run_checkpoints_dir a env else run_checkpoints_dir a env @ ''/'')
          @ ''glide-ft-'' @ str_nat (batches_per_epoch a env - 1) @ ''.pt'')) \<and>
   (\<forall>n. str_nat n = (if n < 10 then [''0123456789'' ! n]
                     else str_nat (n div 10) @ [''0123456789'' ! (n mod 10)])) \<and>
   (\<forall>m n. str_nat m = str_nat n \<longrightarrow> m = n)"
proof -
  let ?dir = "run_checkpoints_dir a env" and ?L = "batches_per_epoch a env"
  let ?E = "nat (num_epochs a)"
  let ?file = "(if ?dir = [] \<or> last ?dir = CHR ''/'' then ?dir else ?dir @ ''/'')
          @ ''glide-ft-'' @ str_nat (?L - 1) @ ''.pt''"
  let ?tail = "[Print ''Finished training, saving final checkpoint'',
           TorchSave ?file,
           Print (''Saved checkpoint '' @ str_nat (?L - 1) @ '' to ''
                  @ ?dir @ ''/glide-ft-'' @ str_nat (?L - 1) @ ''.pt'')]"
  have fname: "checkpoint_path ?dir (?L - 1) = ?file"
    by (rule checkpoint_path_explicit)
  have tail: "Print ''Finished training, saving final checkpoint'' # save_model ?dir (?L - 1)
      = ?tail"
    unfolding save_model_def fname by simp
  from assms obtain opt where
    ev: "fst (run_glide_finetune a env) =
       run_prefix a env
       @ [Print (''Dataset contains '' @ str_nat (length (run_dataset a env)) @ '' images''),
          NewOptimizer opt, MakeDirs ''./outputs'', ModelTo (device a), ModelTrain, ModelZeroGrad]
       @ concat (map (\<lambda>e. fst (epoch_events a env opt e)) [0..<?E])"
    and ok: "\<forall>e<?E. snd (epoch_events a env opt e) = Inr ()"
    by (rule run_ok_epochs)
  define start where "start = run_prefix a env
       @ [Print (''Dataset contains '' @ str_nat (length (run_dataset a env)) @ '' images''),
          NewOptimizer opt, MakeDirs ''./outputs'', ModelTo (device a), ModelTrain, ModelZeroGrad]"
  define epochs where "epochs = map (\<lambda>e. fst (epoch_events a env opt e)) [0..<?E]"
  have 1: "fst (run_glide_finetune a env) = start @ concat epochs"
    by (simp add: ev start_def epochs_def)
  have 2: "checkpoint_writes start = []" "iterations start = []"
    by (simp_all add: start_def run_prefix_def)
  have 3: "length epochs = ?E"
    by (simp add: epochs_def)
  have 4: "\<exists>body. ep = body @ ?tail \<and> iterations body = [0..<?L] \<and> 0 < ?L"
    if "ep \<in> set epochs" for ep
  proof -
    from that obtain e where e: "e < ?E" and ep: "ep = fst (epoch_events a env opt e)"
      by (auto simp: epochs_def)
    let ?args = "epoch_args_of a ?dir opt"
    let ?dl = "batches (nat (batch_size a)) (shuffle_rnd env e) (run_dataset a env)"
    from e ok have "snd (epoch_events a env opt e) = Inr ()" by simp
    then have s: "snd (run_glide_finetune_epoch ?args (train_step_at env e) ?dl) = Inr ()"
      by (simp add: epoch_events_snd)
    define body where "body = Print (''Starting epoch '' @ str_nat e)
        # [MakeDirs (checkpoints_dir ?args), NewTrainer (options_use_fp16 ?args), ZeroGrad]
        @ concat (map (\<lambda>x. fst (loop_body ?args (train_step_at env e) x)) (enumerate 0 ?dl))"
    have split0: "ep = body @ Print ''Finished training, saving final checkpoint''
                  # save_model ?dir (?L - 1)"
      by (simp add: ep epoch_events_fst epoch_ok_events(1) [OF s] body_def length_run_batches
          epoch_args_of_simps)
    from epoch_iterations [OF s] have "iterations ep = [0..<?L]"
      by (simp add: ep epoch_events_fst length_run_batches)
    then have "iterations body = [0..<?L]"
      by (simp add: split0 iterations_append save_model_def)
    moreover from epoch_ok_events(3) [OF s] have "0 < ?L"
      unfolding length_run_batches [of a env e, symmetric] by simp
    moreover from split0 have "ep = body @ ?tail"
      unfolding tail .
    ultimately show ?thesis by blast
  qed
  have "?E * 1 \<le> ?E * count_list (scheduled_checkpoints ?dir ?L @ [checkpoint_path ?dir (?L - 1)])
      (checkpoint_path ?dir (?L - 1))"
    by (intro mult_le_mono2) simp
  then have "?E \<le> count_list (checkpoint_writes (fst (run_glide_finetune a env)))
      (checkpoint_path ?dir (?L - 1))"
    by (simp add: run_checkpoint_writes [OF assms] count_list_concat_replicate [symmetric])
  then have 5: "?E \<le> count_list (checkpoint_writes (fst (run_glide_finetune a env))) ?file"
    unfolding fname .
  from 1 2 3 4 5 have A: "\<exists>start epochs.
     fst (run_glide_finetune a env) = start @ concat epochs \<and>
     checkpoint_writes start = [] \<and> iterations start = [] \<and>
     length epochs = ?E \<and>
     (\<forall>ep\<in>set epochs. \<exists>body. ep = body @ ?tail \<and> iterations body = [0..<?L] \<and> 0 < ?L) \<and>
     ?E \<le> count_list (checkpoint_writes (fst (run_glide_finetune a env))) ?file"
    by blast
  have B: "\<forall>n. str_nat n = (if n < 10 then [''0123456789'' ! n]
                     else str_nat (n div 10) @ [''0123456789'' ! (n mod 10)])"
    by (intro allI) (rule str_nat_decimal)
  have C: "\<forall>m n. str_nat m = str_nat n \<longrightarrow> m = n"
    by (intro allI impI) (rule str_nat_inject)
  from A B C show ?thesis by (rule conjI [OF _ conjI])
qed

theorem final_checkpoint_every_epoch_witness:
  "snd (run_glide_finetune ex_run_args ex_env) = Inr () \<and>
   (\<exists>start epochs.
     fst (run_glide_finetune ex_run_args ex_env) = start @ concat epochs \<and>
     checkpoint_writes start = [] \<and> length epochs = 2 \<and>
     (\<exists>body. last epochs = body @
        [Print ''Finished training, saving final checkpoint'',
         TorchSave ''./finetune_checkpoints/glide-ft-1.pt'',
         Print ''Saved checkpoint 1 to ./finetune_checkpoints/glide-ft-1.pt''])) \<and>
   2 \<le> count_list (checkpoint_writes (fst (run_glide_finetune ex_run_args ex_env)))
         ''./finetune_checkpoints/glide-ft-1.pt'' \<and>
   str_nat 1 = ''1'' \<and> str_nat 1000 = ''1000''"
proof -
  let ?dir = "run_checkpoints_dir ex_run_args ex_env"
  let ?L = "batches_per_epoch ex_run_args ex_env"
  let ?file = "(if ?dir = [] \<or> last ?dir = CHR ''/'' then ?dir else ?dir @ ''/'')
          @ ''glide-ft-'' @ str_nat (?L - 1) @ ''.pt''"
  let ?tail = "[Print ''Finished training, saving final checkpoint'',
           TorchSave ?file,
           Print (''Saved checkpoint '' @ str_nat (?L - 1) @ '' to ''
                  @ ?dir @ ''/glide-ft-'' @ str_nat (?L - 1) @ ''.pt'')]"
  note fin = final_checkpoint_every_epoch [OF ex_run_ok]
  from conjunct1 [OF fin]
  obtain start epochs where
    1: "fst (run_glide_finetune ex_run_args ex_env) = start @ concat epochs"
    and 2: "checkpoint_writes start = []"
    and 3: "length epochs = nat (num_epochs ex_run_args)"
    and 4: "\<forall>ep\<in>set epochs. \<exists>body. ep = body @ ?tail \<and> iterations body = [0..<?L] \<and> 0 < ?L"
    and 5: "nat (num_epochs ex_run_args) \<le>
       count_list (checkpoint_writes (fst (run_glide_finetune ex_run_args ex_env))) ?file"
    by blast
  have fname: "?file = ''./finetune_checkpoints/glide-ft-1.pt''"
    by (simp add: ex_checkpoints_dir ex_batches_per_epoch str_nat_digits)
  have tail: "?tail = [Print ''Finished training, saving final checkpoint'',
         TorchSave ''./finetune_checkpoints/glide-ft-1.pt'',
         Print ''Saved checkpoint 1 to ./finetune_checkpoints/glide-ft-1.pt'']"
    by (simp add: ex_checkpoints_dir ex_batches_per_epoch str_nat_digits)
  have len: "length epochs = 2"
    using 3 by (simp add: ex_run_args_simps)
  then have "epochs \<noteq> []" by auto
  then have "last epochs \<in> set epochs" by simp
  with 4 obtain body where "last epochs = body @ ?tail" by blast
  then have 6: "\<exists>body. last epochs = body @
        [Print ''Finished training, saving final checkpoint'',
         TorchSave ''./finetune_checkpoints/glide-ft-1.pt'',
         Print ''Saved checkpoint 1 to ./finetune_checkpoints/glide-ft-1.pt'']"
    unfolding tail by blast
  from 5 have 7: "2 \<le> count_list (checkpoint_writes (fst (run_glide_finetune ex_run_args ex_env)))
         ''./finetune_checkpoints/glide-ft-1.pt''"
    unfolding fname by (simp add: ex_run_args_simps)
  from conjunct1 [OF conjunct2 [OF fin]]
  have dec: "\<And>n. str_nat n = (if n < 10 then [''0123456789'' ! n]
                     else str_nat (n div 10) @ [''0123456789'' ! (n mod 10)])"
    by blast
  have 8: "str_nat 1 = ''1''"
    by (subst dec) simp
  have 9: "str_nat 1000 = ''1000''"
    by (simp add: dec [of 1000] dec [of 100] dec [of 10] dec [of "Suc 0"])
  from 1 2 len 6 have "\<exists>start epochs.
     fst (run_glide_finetune ex_run_args ex_env) = start @ concat epochs \<and>
     checkpoint_writes start = [] \<and> length epochs = 2 \<and>
     (\<exists>body. last epochs = body @
        [Print ''Finished training, saving final checkpoint'',
         TorchSave ''./finetune_checkpoints/glide-ft-1.pt'',
         Print ''Saved checkpoint 1 to ./finetune_checkpoints/glide-ft-1.pt''])"
    by blast
  with ex_run_ok 7 8 9 show ?thesis by (intro conjI)
qed

text \<open>
  Claim C6. When the dataset the driver builds is empty, the run stops with the
  assertion error "Dataset is empty" right after the tracker and the model were set up:
  no iteration, backward pass, optimizer step, sampler call or checkpoint write occurs.
  When the dataset is not empty the assertion passes and the driver goes on to print the
  size of the dataset.
\<close>

theorem empty_dataset_fails_fast:
  "(run_dataset a env = [] \<longrightarrow>
      run_glide_finetune a env = (run_prefix a env, Inl (AssertionError ''Dataset is empty'')) \<and>
      filter is_training_event (fst (run_glide_finetune a env)) = []) \<and>
   (run_dataset a env \<noteq> [] \<longrightarrow>
      (\<exists>rest. fst (run_glide_finetune a env) =
         run_prefix a env
         @ [Print (''Dataset contains '' @ str_nat (length (run_dataset a env)) @ '' images'')]
         @ rest))"
  using run_nonempty [of a env] by (auto simp: run_empty run_prefix_def)

theorem empty_dataset_fails_fast_witness:
  "run_dataset ex_run_args ex_empty_env = [] \<and>
   run_glide_finetune ex_run_args ex_empty_env =
     ([MakeDirs ''./finetune_checkpoints'', WandbSetup ''glide_finetune'',
       Print ''Wandb setup.'', LoadBaseModel []],
      Inl (AssertionError ''Dataset is empty'')) \<and>
   run_dataset ex_run_args ex_env = [10, 11] \<and>
   (\<exists>rest. fst (run_glide_finetune ex_run_args ex_env) =
      [MakeDirs ''./finetune_checkpoints'', WandbSetup ''glide_finetune'',
       Print ''Wandb setup.'', LoadBaseModel [], Print ''Dataset contains 2 images''] @ rest)"
proof -
  have p: "run_prefix ex_run_args ex_empty_env =
      [MakeDirs ''./finetune_checkpoints'', WandbSetup ''glide_finetune'',
       Print ''Wandb setup.'', LoadBaseModel []]"
    by (simp add: run_prefix_def expand_home_def ex_run_args_simps)
  have q: "run_prefix ex_run_args ex_env =
      [MakeDirs ''./finetune_checkpoints'', WandbSetup ''glide_finetune'',
       Print ''Wandb setup.'', LoadBaseModel []]"
    by (simp add: run_prefix_def expand_home_def ex_run_args_simps)
  from empty_dataset_fails_fast [of ex_run_args ex_empty_env]
    empty_dataset_fails_fast [of ex_run_args ex_env]
  show ?thesis
    by (simp add: ex_empty_dataset ex_dataset p q str_nat.simps [of "Suc (Suc 0)"] digit_char_def)
qed

text \<open>
  Claim C8. Whenever the optimizer can be built, it is built over the parameters of the
  model that require gradients, in their order and no others, at the configured learning
  rate: stochastic gradient descent with momentum 0.9 when \<^verbatim>\<open>use_sgd\<close> is set, AdamW
  with weight decay 0 otherwise. In a run that completes, this optimizer is the one the
  driver creates and the one every optimizer step of every epoch is taken with.
\<close>

theorem optimizer_over_trainable_parameters:
  "(\<forall>opt. make_optimizer (use_sgd a) (learning_rate a) (parameters env) = Inr opt \<longrightarrow>
      opt = (if use_sgd a
             then SGD (filter requires_grad (parameters env)) (learning_rate a) (9 / 10)
             else AdamW (filter requires_grad (parameters env)) (learning_rate a) 0)) \<and>
   (snd (run_glide_finetune a env) = Inr () \<longrightarrow>
      (\<exists>opt. make_optimizer (use_sgd a) (learning_rate a) (parameters env) = Inr opt \<and>
         NewOptimizer opt \<in> set (fst (run_glide_finetune a env)) \<and>
         optimizer_steps (fst (run_glide_finetune a env)) =
           replicate (nat (num_epochs a) * batches_per_epoch a env) opt))"
  using run_optimizer_steps [of a env] by (auto dest: make_optimizer_Inr)

theorem optimizer_over_trainable_parameters_witness:
  "make_optimizer (use_sgd ex_run_args) (learning_rate ex_run_args) (parameters ex_env) =
     Inr (AdamW [\<lparr>name = ''unet'', requires_grad = True\<rparr>] (1 / 100000) 0) \<and>
   make_optimizer True (1 / 100000) (parameters ex_env) =
     Inr (SGD [\<lparr>name = ''unet'', requires_grad = True\<rparr>] (1 / 100000) (9 / 10)) \<and>
   snd (run_glide_finetune ex_run_args ex_env) = Inr () \<and>
   optimizer_steps (fst (run_glide_finetune ex_run_args ex_env)) =
     replicate 4 (AdamW [\<lparr>name = ''unet'', requires_grad = True\<rparr>] (1 / 100000) 0)"
proof -
  have m: "make_optimizer (use_sgd ex_run_args) (learning_rate ex_run_args) (parameters ex_env) =
     Inr (AdamW [\<lparr>name = ''unet'', requires_grad = True\<rparr>] (1 / 100000) 0)"
    by (simp add: make_optimizer_def th_optim_AdamW_def ex_env_def ex_run_args_simps)
  have s: "make_optimizer True (1 / 100000) (parameters ex_env) =
     Inr (SGD [\<lparr>name = ''unet'', requires_grad = True\<rparr>] (1 / 100000) (9 / 10))"
    by (simp add: make_optimizer_def th_optim_SGD_def ex_env_def)
  from optimizer_over_trainable_parameters [of ex_run_args ex_env] ex_run_ok m
  have "optimizer_steps (fst (run_glide_finetune ex_run_args ex_env)) =
     replicate 4 (AdamW [\<lparr>name = ''unet'', requires_grad = True\<rparr>] (1 / 100000) 0)"
    by (simp add: ex_batches_per_epoch ex_run_args_simps)
  with m s ex_run_ok show ?thesis by simp
qed

end
